theory Spec2Isabelle
  imports Complex_Main
begin

section \<open>Workflow runners: applications/autolamella/workflows/runners.py\<close>

subsection \<open>Data\<close>

text \<open>
  The members of the enum \<open>AutoLamellaStage\<close> that runners.py names. The enum itself is
  declared in autolamella/structures.py; \<open>OtherStage\<close> stands for its members that the
  runners never mention.
\<close>

datatype AutoLamellaStage =
    PositionReady
  | MillTrench
  | MillUndercut
  | LandLamella
  | SetupLamella
  | MillRough
  | SetupPolishing
  | MillPolishing
  | Finished
  | OtherStage nat

text \<open>The exceptions that the modelled code can raise by itself.\<close>

datatype error =
  UnboundLocalError | ValueError | KeyError | ZeroDivisionError | IndexError | AttributeError

text \<open>
  A position of the experiment (a \<open>Lamella\<close> object): the attributes that the runners
  read.
\<close>

record Lamella =
  name :: string
  workflow :: AutoLamellaStage
  is_failure :: bool

text \<open>The functions that are the values of the table \<open>WORKFLOW_STAGES\<close>.\<close>

datatype stage_fn = mill_trench | mill_undercut | setup_lamella | mill_lamella | setup_polishing

text \<open>
  Every call that a runner makes into workflows/core.py, workflows/ui.py, the microscope
  or the logger is recorded, in order, with its arguments. A position is identified by its
  index in \<open>experiment.positions\<close>. \<open>StartOfStageUpdate\<close> also keeps the record of the
  position as it was when the call was made. An optional keyword argument that the caller
  leaves out is \<open>None\<close>.
\<close>

datatype call =
    StartOfStageUpdate nat Lamella AutoLamellaStage "bool option"
  | StageFunction stage_fn nat
  | EndOfStageUpdate nat "bool option"
  | LogStatusMessage nat string
  | LogSkippingStage AutoLamellaStage
  | LoggingInfo string
  | AskUser string "bool option" bool
  | AskUserContinueWorkflow string bool bool
  | GetTargetPosition nat
  | SafeAbsoluteStageMovement nat
  | TakeReferenceImages nat string
  | SetImagesUI

text \<open>
  The state that a runner works on: the list \<open>experiment.positions\<close> (the objects are
  shared, so an update of a position by a callee is seen through the experiment) and the
  calls made so far.
\<close>

record world =
  positions :: "Lamella list"
  calls :: "call list"

text \<open>A run either returns or raises; either way the state reached is kept.\<close>

datatype result = Returned world | Raised error world

fun final :: "result \<Rightarrow> world" where
  "final (Returned w) = w"
| "final (Raised e w) = w"

fun raised :: "result \<Rightarrow> error option" where
  "raised (Returned w) = None"
| "raised (Raised e w) = Some e"

text \<open>
  The code that runners.py calls and that lives in other modules: the stage functions of
  workflows/core.py, the prompts of workflows/ui.py, the method \<open>Experiment.at_stage\<close>
  and the values of the enum. Each is a parameter. A callee that is
  handed a position may change that position in any way, depending on everything that
  happened before (the calls so far); it does not replace the list of positions.
  \<^item> \<open>stage_value\<close> is \<open>stage.value\<close>, \<open>stage_of_value v\<close> is \<open>AutoLamellaStage(v)\<close>
    (\<open>None\<close> when no member has the value \<open>v\<close>, where Python raises ValueError);
  \<^item> \<open>on_start\<close>, \<open>on_stage\<close>, \<open>on_end\<close> are what \<open>start_of_stage_update\<close>, a stage
    function and \<open>end_of_stage_update\<close> do to the position they are given;
  \<^item> \<open>user\<close> is the answer of \<open>ask_user\<close> (\<open>False\<close> is Python's \<open>False\<close>, \<open>True\<close> any
    other value), \<open>continue_workflow\<close> the value of \<open>ask_user_continue_workflow\<close>.
\<close>

record env =
  stage_value :: "AutoLamellaStage \<Rightarrow> int"
  stage_of_value :: "int \<Rightarrow> AutoLamellaStage option"
  on_start :: "call list \<Rightarrow> Lamella \<Rightarrow> AutoLamellaStage \<Rightarrow> bool option \<Rightarrow> Lamella"
  on_stage :: "call list \<Rightarrow> stage_fn \<Rightarrow> Lamella \<Rightarrow> Lamella"
  on_end :: "call list \<Rightarrow> Lamella \<Rightarrow> bool option \<Rightarrow> Lamella"
  at_stage :: "Lamella list \<Rightarrow> AutoLamellaStage \<Rightarrow> bool"
  user :: "call list \<Rightarrow> string \<Rightarrow> bool"
  continue_workflow :: "call list \<Rightarrow> string \<Rightarrow> bool \<Rightarrow> bool"


subsection \<open>Calls into the missing modules\<close>

text \<open>
  Modelled from the spec: \<open>start_of_stage_update\<close>, the stage functions,
  \<open>end_of_stage_update\<close> and \<open>log_status_message\<close> of workflows/core.py and \<open>ask_user\<close>,
  \<open>ask_user_continue_workflow\<close> of workflows/ui.py are not among the sources. Following the
  spec ("invoke one of a small set of named stage functions, and record the result"), a
  stage function updates the position it is given, in place, by the parameter of \<open>env\<close>,
  and returns that position; logging and prompts change no position.
\<close>

definition emit :: "call list \<Rightarrow> world \<Rightarrow> world" where
  "emit cs w = w\<lparr>calls := calls w @ cs\<rparr>"

definition start_of_stage_update ::
  "env \<Rightarrow> nat \<Rightarrow> AutoLamellaStage \<Rightarrow> bool option \<Rightarrow> world \<Rightarrow> world" where
  "start_of_stage_update h i next_stage restore_state w =
     (let lamella = positions w ! i in
      w\<lparr>positions := (positions w)[i := on_start h (calls w) lamella next_stage restore_state],
        calls := calls w @ [StartOfStageUpdate i lamella next_stage restore_state]\<rparr>)"

definition call_stage_fn :: "env \<Rightarrow> stage_fn \<Rightarrow> nat \<Rightarrow> world \<Rightarrow> world" where
  "call_stage_fn h f i w =
     w\<lparr>positions := (positions w)[i := on_stage h (calls w) f (positions w ! i)],
       calls := calls w @ [StageFunction f i]\<rparr>"

definition end_of_stage_update :: "env \<Rightarrow> nat \<Rightarrow> bool option \<Rightarrow> world \<Rightarrow> world" where
  "end_of_stage_update h i save_state w =
     w\<lparr>positions := (positions w)[i := on_end h (calls w) (positions w ! i) save_state],
       calls := calls w @ [EndOfStageUpdate i save_state]\<rparr>"

definition log_status_message :: "nat \<Rightarrow> string \<Rightarrow> world \<Rightarrow> world" where
  "log_status_message i msg w = emit [LogStatusMessage i msg] w"

definition ask_user :: "env \<Rightarrow> string \<Rightarrow> bool option \<Rightarrow> world \<Rightarrow> bool \<times> world" where
  "ask_user h msg spot_burn w =
     (let ret = user h (calls w) msg in (ret, emit [AskUser msg spot_burn ret] w))"

definition ask_user_continue_workflow :: "env \<Rightarrow> string \<Rightarrow> bool \<Rightarrow> world \<Rightarrow> bool \<times> world" where
  "ask_user_continue_workflow h msg validate w =
     (let ret = continue_workflow h (calls w) msg validate
      in (ret, emit [AskUserContinueWorkflow msg validate ret] w))"

subsection \<open>Loops\<close>

text \<open>
  \<open>for x in xs: body\<close>, where the body may raise. The loop over \<open>experiment.positions\<close>
  runs over the indices of the list, which is read once, when the loop starts.
\<close>

fun for_each :: "('a \<Rightarrow> world \<Rightarrow> result) \<Rightarrow> 'a list \<Rightarrow> world \<Rightarrow> result" where
  "for_each body [] w = Returned w"
| "for_each body (x # xs) w =
     (case body x w of
        Raised e w' \<Rightarrow> Raised e w'
      | Returned w' \<Rightarrow> for_each body xs w')"

definition indices :: "world \<Rightarrow> nat list" where
  "indices w = [0..<length (positions w)]"

text \<open>
  After its loops a runner reads the loop variable \<open>lamella\<close>, which is bound only if a
  loop over the positions ran at least once; then it is the last position.
\<close>

definition log_null_end :: "world \<Rightarrow> result" where
  "log_null_end w =
     (if positions w = [] then Raised UnboundLocalError w
      else Returned (log_status_message (length (positions w) - 1) ''NULL_END'' w))"

subsection \<open>The runners\<close>

definition WORKFLOW_STAGES :: "AutoLamellaStage \<rightharpoonup> stage_fn" where
  "WORKFLOW_STAGES =
     [MillTrench \<mapsto> mill_trench,
      MillUndercut \<mapsto> mill_undercut,
      SetupLamella \<mapsto> setup_lamella,
      MillRough \<mapsto> mill_lamella,
      SetupPolishing \<mapsto> setup_polishing,
      MillPolishing \<mapsto> mill_lamella]"

definition LAMELLA_MILLING_WORKFLOW :: "AutoLamellaStage list" where
  "LAMELLA_MILLING_WORKFLOW = [MillRough, SetupPolishing, MillPolishing]"

definition trench_body :: "env \<Rightarrow> nat \<Rightarrow> world \<Rightarrow> result" where
  "trench_body h i w =
     (let lamella = positions w ! i in
      if workflow lamella = PositionReady \<and> \<not> is_failure lamella then
        Returned (end_of_stage_update h i None
                   (call_stage_fn h mill_trench i
                     (start_of_stage_update h i MillTrench None w)))
      else Returned w)"

definition run_trench_milling :: "env \<Rightarrow> world \<Rightarrow> result" where
  "run_trench_milling h w =
     (case for_each (trench_body h) (indices w) w of
        Raised e w' \<Rightarrow> Raised e w'
      | Returned w' \<Rightarrow> log_null_end w')"

definition undercut_body :: "env \<Rightarrow> nat \<Rightarrow> world \<Rightarrow> result" where
  "undercut_body h i w =
     (let lamella = positions w ! i;
          w' = (if workflow lamella = MillTrench \<and> \<not> is_failure lamella then
                  end_of_stage_update h i None
                    (call_stage_fn h mill_undercut i
                      (start_of_stage_update h i MillUndercut None w))
                else w)
      in Returned (log_status_message i ''NULL_END'' w'))"

definition run_undercut_milling :: "env \<Rightarrow> world \<Rightarrow> result" where
  "run_undercut_milling h w = for_each (undercut_body h) (indices w) w"

definition setup_body :: "env \<Rightarrow> nat \<Rightarrow> world \<Rightarrow> result" where
  "setup_body h i w =
     (let lamella = positions w ! i in
      if workflow lamella \<in> set [PositionReady, MillUndercut, LandLamella]
         \<and> \<not> is_failure lamella then
        Returned (end_of_stage_update h i None
                   (call_stage_fn h setup_lamella i
                     (start_of_stage_update h i SetupLamella None w)))
      else Returned w)"

definition run_setup_lamella :: "env \<Rightarrow> world \<Rightarrow> result" where
  "run_setup_lamella h w =
     (case for_each (setup_body h) (indices w) w of
        Raised e w' \<Rightarrow> Raised e w'
      | Returned w' \<Rightarrow> log_null_end w')"

text \<open>
  \<open>is_previous_completed\<close> of run_lamella_milling. For a stage that is neither of the two
  tests the variable would be unbound; the loop only runs over the three stages of
  \<open>LAMELLA_MILLING_WORKFLOW\<close>.
\<close>

definition is_previous_completed :: "env \<Rightarrow> AutoLamellaStage \<Rightarrow> Lamella \<Rightarrow> error + bool" where
  "is_previous_completed h stage lamella =
     (if stage \<in> set [MillRough, SetupPolishing] then
        (case stage_of_value h (stage_value h stage - 1) of
           None \<Rightarrow> Inl ValueError
         | Some previous \<Rightarrow> Inr (workflow lamella = previous))
      else if stage = MillPolishing then
        Inr (workflow lamella \<in> set [MillRough, SetupPolishing])
      else Inl UnboundLocalError)"

definition milling_body :: "env \<Rightarrow> AutoLamellaStage \<Rightarrow> nat \<Rightarrow> world \<Rightarrow> result" where
  "milling_body h stage i w =
     (let lamella = positions w ! i in
      case is_previous_completed h stage lamella of
        Inl e \<Rightarrow> Raised e w
      | Inr previous_completed \<Rightarrow>
          if previous_completed \<and> \<not> is_failure lamella then
            (let w1 = start_of_stage_update h i stage None w in
             case WORKFLOW_STAGES (workflow (positions w1 ! i)) of
               None \<Rightarrow> Raised KeyError w1
             | Some f \<Rightarrow> Returned (end_of_stage_update h i None (call_stage_fn h f i w1)))
          else Returned w)"

definition milling_stage :: "env \<Rightarrow> AutoLamellaStage list \<Rightarrow> AutoLamellaStage \<Rightarrow> world \<Rightarrow> result" where
  "milling_stage h stages_to_complete stage w =
     (if stage \<notin> set stages_to_complete then Returned (emit [LogSkippingStage stage] w)
      else for_each (milling_body h stage) (indices w) w)"

definition finish_body :: "env \<Rightarrow> nat \<Rightarrow> world \<Rightarrow> result" where
  "finish_body h i w =
     (let lamella = positions w ! i in
      if workflow lamella = MillPolishing \<and> \<not> is_failure lamella then
        Returned (end_of_stage_update h i (Some False)
                   (start_of_stage_update h i Finished (Some False) w))
      else Returned w)"

definition run_lamella_milling :: "env \<Rightarrow> AutoLamellaStage list \<Rightarrow> world \<Rightarrow> result" where
  "run_lamella_milling h stages_to_complete w =
     (case for_each (milling_stage h stages_to_complete) LAMELLA_MILLING_WORKFLOW w of
        Raised e w' \<Rightarrow> Raised e w'
      | Returned w1 \<Rightarrow>
          (case for_each (finish_body h) (indices w1) w1 of
             Raised e w' \<Rightarrow> Raised e w'
           | Returned w2 \<Rightarrow> log_null_end w2))"





text \<open>
  run_spot_burn_workflow: for each position, move to it, take the reference images and
  ask the user; the loop is left when the answer is \<open>False\<close>. The function returns nothing.
\<close>

fun spot_burn_loop :: "env \<Rightarrow> nat list \<Rightarrow> world \<Rightarrow> world" where
  "spot_burn_loop h [] w = w"
| "spot_burn_loop h (i # rest) w =
     (let position = positions w ! i;
          w1 = emit [LoggingInfo (''Running spot burn workflow for '' @ name position),
                     GetTargetPosition i,
                     SafeAbsoluteStageMovement i,
                     TakeReferenceImages i ''ref_spot_burn_start'',
                     SetImagesUI] w;
          msg = ''Run the spot burn workflow for '' @ name position
                @ ''. Press continue when finished.'';
          (ret, w2) = ask_user h msg (Some True) w1
      in if \<not> ret then w2
         else spot_burn_loop h rest
                (emit [TakeReferenceImages i ''ref_spot_burn_end'', SetImagesUI] w2))"

definition run_spot_burn_workflow :: "env \<Rightarrow> world \<Rightarrow> world" where
  "run_spot_burn_workflow h w = spot_burn_loop h (indices w) w"

subsection \<open>Properties of runs\<close>

text \<open>The calls made between a state and a later one.\<close>

definition new_calls :: "world \<Rightarrow> world \<Rightarrow> call list" where
  "new_calls w w' = drop (length (calls w)) (calls w')"

text \<open>
  A stage call on position \<open>i\<close>: \<open>start_of_stage_update\<close>, a stage function or
  \<open>end_of_stage_update\<close> with that position as its argument.
\<close>

fun stage_call_on :: "nat \<Rightarrow> call \<Rightarrow> bool" where
  "stage_call_on i (StartOfStageUpdate j l s r) = (i = j)"
| "stage_call_on i (StageFunction f j) = (i = j)"
| "stage_call_on i (EndOfStageUpdate j r) = (i = j)"
| "stage_call_on i c = False"

text \<open>
  Position \<open>i\<close> is skipped between \<open>w\<close> and \<open>w'\<close>: its record is the same, and the calls
  made in between hold no stage call on it.
\<close>

definition skipped :: "nat \<Rightarrow> world \<Rightarrow> world \<Rightarrow> bool" where
  "skipped i w w' \<longleftrightarrow>
     length (positions w') = length (positions w) \<and>
     positions w' ! i = positions w ! i \<and>
     calls w' = calls w @ new_calls w w' \<and>
     \<not> list_ex (stage_call_on i) (new_calls w w')"

text \<open>
  A call that works on position \<open>i\<close>: a stage call on it, a movement of the microscope
  stage to it, or the acquisition of its reference images.
\<close>

fun visits :: "nat \<Rightarrow> call \<Rightarrow> bool" where
  "visits i (GetTargetPosition j) = (i = j)"
| "visits i (SafeAbsoluteStageMovement j) = (i = j)"
| "visits i (TakeReferenceImages j f) = (i = j)"
| "visits i c = stage_call_on i c"

text \<open>
  What run_spot_burn_workflow does for one position when the user continues: the same
  calls whatever the stage and the failure flag of the position.
\<close>

definition spot_burn_calls :: "nat \<Rightarrow> Lamella \<Rightarrow> call list" where
  "spot_burn_calls i position =
     [LoggingInfo (''Running spot burn workflow for '' @ name position),
      GetTargetPosition i,
      SafeAbsoluteStageMovement i,
      TakeReferenceImages i ''ref_spot_burn_start'',
      SetImagesUI,
      AskUser (''Run the spot burn workflow for '' @ name position
               @ ''. Press continue when finished.'') (Some True) True,
      TakeReferenceImages i ''ref_spot_burn_end'',
      SetImagesUI]"

text \<open>A prompt: a call of \<open>ask_user\<close> or of \<open>ask_user_continue_workflow\<close>.\<close>

fun is_prompt :: "call \<Rightarrow> bool" where
  "is_prompt (AskUser m b r) = True"
| "is_prompt (AskUserContinueWorkflow m v r) = True"
| "is_prompt c = False"


text \<open>What run_trench_milling is to do for one position, in the words of its description.\<close>

definition trench_ready :: "Lamella \<Rightarrow> bool" where
  "trench_ready l \<longleftrightarrow> workflow l = PositionReady \<and> \<not> is_failure l"

definition trench_calls :: "nat \<Rightarrow> Lamella \<Rightarrow> call list" where
  "trench_calls i l =
     (if trench_ready l then
        [StartOfStageUpdate i l MillTrench None, StageFunction mill_trench i, EndOfStageUpdate i None]
      else [])"





text \<open>
  Every call made between \<open>w\<close> and \<open>v\<close> satisfies \<open>P\<close>. Two such \<open>P\<close>: the call starts no
  stage outside \<open>S\<close>; the call is no prompt.
\<close>

definition adds :: "(call \<Rightarrow> bool) \<Rightarrow> world \<Rightarrow> world \<Rightarrow> bool" where
  "adds P w v \<longleftrightarrow> calls v = calls w @ new_calls w v \<and> list_all P (new_calls w v)"


fun starts_within :: "AutoLamellaStage list \<Rightarrow> call \<Rightarrow> bool" where
  "starts_within S (StartOfStageUpdate i l s r) = (s \<in> set S)"
| "starts_within S c = True"

definition no_prompt :: "call \<Rightarrow> bool" where
  "no_prompt c \<longleftrightarrow> \<not> is_prompt c"

definition quiet :: "AutoLamellaStage list \<Rightarrow> call \<Rightarrow> bool" where
  "quiet S c \<longleftrightarrow> starts_within S c \<and> no_prompt c"






subsection \<open>An environment and positions for examples\<close>

text \<open>
  An enum whose values follow the order in which the runners use the stages, a
  \<open>start_of_stage_update\<close> that sets the stage of the position, stage functions that change
  nothing else, and a user who agrees to everything (\<open>agreeing\<close>) or to nothing
  (\<open>declining\<close>).
\<close>

fun example_value :: "AutoLamellaStage \<Rightarrow> int" where
  "example_value PositionReady = 2"
| "example_value MillTrench = 3"
| "example_value MillUndercut = 4"
| "example_value LandLamella = 6"
| "example_value SetupLamella = 7"
| "example_value MillRough = 8"
| "example_value SetupPolishing = 9"
| "example_value MillPolishing = 10"
| "example_value Finished = 11"
| "example_value (OtherStage n) = 12 + int n"

definition example_of_value :: "int \<Rightarrow> AutoLamellaStage option" where
  "example_of_value v =
     find (\<lambda>s. example_value s = v)
       [PositionReady, MillTrench, MillUndercut, LandLamella, SetupLamella, MillRough,
        SetupPolishing, MillPolishing, Finished]"

definition example_env :: "bool \<Rightarrow> env" where
  "example_env answer =
     \<lparr>stage_value = example_value,
      stage_of_value = example_of_value,
      on_start = (\<lambda>cs l s r. l\<lparr>workflow := s\<rparr>),
      on_stage = (\<lambda>cs f l. l),
      on_end = (\<lambda>cs l r. l),
      at_stage = (\<lambda>ps s. list_ex (\<lambda>l. workflow l = s) ps),
      user = (\<lambda>cs m. answer),
      continue_workflow = (\<lambda>cs m validate. answer)\<rparr>"

definition agreeing :: env where
  "agreeing = example_env True"


definition lamella_at :: "string \<Rightarrow> AutoLamellaStage \<Rightarrow> bool \<Rightarrow> Lamella" where
  "lamella_at n s f = \<lparr>name = n, workflow = s, is_failure = f\<rparr>"

definition experiment_of :: "Lamella list \<Rightarrow> world" where
  "experiment_of ps = \<lparr>positions = ps, calls = []\<rparr>"


section \<open>Pattern shapes for the viewer: ui/napari/patterns.py\<close>

subsection \<open>Numbers\<close>

text \<open>
  The coordinates are Python floats. They are modelled as real numbers: no rounding, no
  infinities and no NaN. \<open>int(x)\<close> truncates towards zero; \<open>a // b\<close> on integers is
  \<open>a div b\<close>; \<open>a / b\<close> raises ZeroDivisionError when \<open>b\<close> is zero.
\<close>

definition py_int :: "real \<Rightarrow> int" where
  "py_int x = (if 0 \<le> x then \<lfloor>x\<rfloor> else \<lceil>x\<rceil>)"

subsection \<open>Data\<close>

text \<open>
  The pattern settings classes, with the attributes that patterns.py reads, in this order:
  \<^item> \<open>FibsemRectangleSettings width height centre_x centre_y rotation\<close>
  \<^item> \<open>FibsemCircleSettings radius centre_x centre_y\<close>
  \<^item> \<open>FibsemLineSettings start_x start_y end_x end_y\<close>
  \<^item> \<open>FibsemBitmapSettings width height rotation centre_x centre_y path\<close>
  \<^item> \<open>OtherSettings n\<close>: an object of any other class, \<open>n\<close> naming the class.
\<close>

datatype pattern_settings =
    FibsemRectangleSettings real real real real real
  | FibsemCircleSettings real real real
  | FibsemLineSettings real real real real
  | FibsemBitmapSettings real real real real real string
  | OtherSettings string

datatype settings_type =
    RectangleType
  | CircleType
  | LineType
  | BitmapType
  | OtherType string

fun type_of :: "pattern_settings \<Rightarrow> settings_type" where
  "type_of (FibsemRectangleSettings w h cx cy r) = RectangleType"
| "type_of (FibsemCircleSettings r cx cy) = CircleType"
| "type_of (FibsemLineSettings sx sy ex ey) = LineType"
| "type_of (FibsemBitmapSettings w h r cx cy p) = BitmapType"
| "type_of (OtherSettings n) = OtherType n"

text \<open>
  A vertex \<open>[y, x]\<close> is a pair. What a drawing function returns is an array of vertices
  or, for a bitmap, the pair of an image and the place to put it; the image is kept as the
  file, the size it is resized to and the angle it is rotated by (its pixels are not
  modelled, nor the errors of reading the file).
\<close>

type_synonym vertex = "real \<times> real"

datatype napari_shape =
    Vertices "vertex list"
  | BitmapImage string int int real "int \<times> int"

datatype log_record = WarningNotSupported settings_type

record Point =
  point_x :: real
  point_y :: real

record FibsemRectangle =
  rect_left :: real
  rect_top :: real
  rect_width :: real
  rect_height :: real

text \<open>
  A pattern: whether it is a \<open>FiducialPattern\<close>, the list that \<open>pattern.define()\<close>
  returns, and its attributes \<open>point\<close> and \<open>height\<close>.
\<close>

record BasePattern =
  is_fiducial :: bool
  defined :: "pattern_settings list"
  point :: Point
  height :: real

record FibsemMillingStage =
  pattern :: BasePattern

text \<open>An image: \<open>image.data.shape\<close> and \<open>image.metadata.pixel_size.x\<close>.\<close>

record FibsemImage =
  data_shape :: "int \<times> int"
  pixel_size_x :: real

subsection \<open>Conversions of single patterns\<close>

definition get_image_pixel_centre :: "int \<times> int \<Rightarrow> int \<times> int" where
  "get_image_pixel_centre shape = (fst shape div 2, snd shape div 2)"

fun convert_pattern_to_napari_circle ::
  "pattern_settings \<Rightarrow> int \<times> int \<Rightarrow> real \<Rightarrow> error + napari_shape" where
  "convert_pattern_to_napari_circle (FibsemCircleSettings radius centre_x centre_y) shape pixelsize =
     (if pixelsize = 0 then Inl ZeroDivisionError
      else
        (let (icy, icx) = get_image_pixel_centre shape;
             r = py_int (radius / pixelsize);
             cx = py_int (real_of_int icx + (centre_x / pixelsize));
             cy = py_int (real_of_int icy - (centre_y / pixelsize));
             xmin = cx - r; ymin = cy - r;
             xmax = cx + r; ymax = cy + r
         in Inr (Vertices [(real_of_int ymin, real_of_int xmin), (real_of_int ymin, real_of_int xmax),
                           (real_of_int ymax, real_of_int xmax), (real_of_int ymax, real_of_int xmin)])))"
| "convert_pattern_to_napari_circle pattern_settings shape pixelsize = Inl ValueError"

fun convert_pattern_to_napari_line ::
  "pattern_settings \<Rightarrow> int \<times> int \<Rightarrow> real \<Rightarrow> error + napari_shape" where
  "convert_pattern_to_napari_line (FibsemLineSettings start_x start_y end_x end_y) shape pixelsize =
     (if pixelsize = 0 then Inl ZeroDivisionError
      else
        (let (icy, icx) = get_image_pixel_centre shape;
             px0 = py_int (real_of_int icx + (start_x / pixelsize));
             py0 = py_int (real_of_int icy - (start_y / pixelsize));
             px1 = py_int (real_of_int icx + (end_x / pixelsize));
             py1 = py_int (real_of_int icy - (end_y / pixelsize))
         in Inr (Vertices [(real_of_int py0, real_of_int px0), (real_of_int py1, real_of_int px1)])))"
| "convert_pattern_to_napari_line pattern_settings shape pixelsize = Inl ValueError"

fun convert_pattern_to_napari_rect ::
  "pattern_settings \<Rightarrow> int \<times> int \<Rightarrow> real \<Rightarrow> error + napari_shape" where
  "convert_pattern_to_napari_rect
     (FibsemRectangleSettings pattern_width pattern_height pattern_centre_x pattern_centre_y
        pattern_rotation) shape pixelsize =
     (if pixelsize = 0 then Inl ZeroDivisionError
      else
        (let (icy, icx) = get_image_pixel_centre shape;
             w = py_int (pattern_width / pixelsize);
             h = py_int (pattern_height / pixelsize);
             cx = py_int (real_of_int icx + (pattern_centre_x / pixelsize));
             cy = py_int (real_of_int icy - (pattern_centre_y / pixelsize));
             r = - pattern_rotation;
             xmin = - real_of_int w / 2; xmax = real_of_int w / 2;
             ymin = - real_of_int h / 2; ymax = real_of_int h / 2;
             px0 = real_of_int cx + (xmin * cos r - ymin * sin r);
             py0 = real_of_int cy + (xmin * sin r + ymin * cos r);
             px1 = real_of_int cx + (xmax * cos r - ymin * sin r);
             py1 = real_of_int cy + (xmax * sin r + ymin * cos r);
             px2 = real_of_int cx + (xmax * cos r - ymax * sin r);
             py2 = real_of_int cy + (xmax * sin r + ymax * cos r);
             px3 = real_of_int cx + (xmin * cos r - ymax * sin r);
             py3 = real_of_int cy + (xmin * sin r + ymax * cos r)
         in Inr (Vertices [(py0, px0), (py1, px1), (py2, px2), (py3, px3)])))"
| "convert_pattern_to_napari_rect pattern_settings shape pixelsize = Inl ValueError"

text \<open>One arm of the crosshair: a 40 by 1 rectangle about \<open>(cx, cy)\<close>, turned by \<open>r\<close>.\<close>

definition crosshair_arm :: "int \<Rightarrow> int \<Rightarrow> real \<Rightarrow> vertex list" where
  "crosshair_arm cx cy r =
     (let w = (40 :: real); h = (1 :: real);
          xmin = - w / 2; xmax = w / 2;
          ymin = - h / 2; ymax = h / 2;
          px0 = real_of_int cx + (xmin * cos r - ymin * sin r);
          py0 = real_of_int cy + (xmin * sin r + ymin * cos r);
          px1 = real_of_int cx + (xmax * cos r - ymin * sin r);
          py1 = real_of_int cy + (xmax * sin r + ymin * cos r);
          px2 = real_of_int cx + (xmax * cos r - ymax * sin r);
          py2 = real_of_int cy + (xmax * sin r + ymax * cos r);
          px3 = real_of_int cx + (xmin * cos r - ymax * sin r);
          py3 = real_of_int cy + (xmin * sin r + ymax * cos r)
      in [(py0, px0), (py1, px1), (py2, px2), (py3, px3)])"

definition create_crosshair_shape ::
  "Point \<Rightarrow> int \<times> int \<Rightarrow> real \<Rightarrow> error + vertex list list" where
  "create_crosshair_shape centre_point shape pixelsize =
     (if pixelsize = 0 then Inl ZeroDivisionError
      else
        (let icy = fst shape div 2; icx = snd shape div 2;
             cx = py_int (real_of_int icx + (point_x centre_point / pixelsize));
             cy = py_int (real_of_int icy - (point_y centre_point / pixelsize))
         in Inr (map (crosshair_arm cx cy) [0, pi / 2])))"

text \<open>
  The bitmap function has no test of the class of its argument: on another object it fails
  at the first attribute that the object lacks (a rectangle has all but \<open>path\<close>, so its
  divisions come first). The table below never hands it anything but a bitmap.
\<close>

fun convert_bitmap_pattern_to_napari_image ::
  "pattern_settings \<Rightarrow> int \<times> int \<Rightarrow> real \<Rightarrow> error + napari_shape" where
  "convert_bitmap_pattern_to_napari_image
     (FibsemBitmapSettings bwidth bheight brotation bcentre_x bcentre_y bpath) shape pixelsize =
     (if pixelsize = 0 then Inl ZeroDivisionError
      else
        (let (icy, icx) = get_image_pixel_centre shape;
             resize_x = py_int (bwidth / pixelsize);
             resize_y = py_int (bheight / pixelsize);
             pattern_centre_x = py_int (real_of_int icx - bwidth / pixelsize / 2);
             pattern_centre_y = py_int (real_of_int icy - bheight / pixelsize / 2);
             pattern_point_x = py_int (real_of_int pattern_centre_x + bcentre_x / pixelsize);
             pattern_point_y = py_int (real_of_int pattern_centre_y - bcentre_y / pixelsize)
         in Inr (BitmapImage bpath resize_x resize_y (- brotation)
                   (pattern_point_y, pattern_point_x))))"
| "convert_bitmap_pattern_to_napari_image (FibsemRectangleSettings w h cx cy r) shape pixelsize =
     (if pixelsize = 0 then Inl ZeroDivisionError else Inl AttributeError)"
| "convert_bitmap_pattern_to_napari_image pattern_settings shape pixelsize = Inl AttributeError"

subsection \<open>Drawing the patterns of the milling stages\<close>

definition COLOURS :: "string list" where
  "COLOURS = [''yellow'', ''cyan'', ''magenta'', ''lime'', ''orange'', ''hotpink'', ''green'',
              ''blue'', ''red'', ''purple'']"

definition IGNORE_SHAPES_LAYERS :: "string list" where
  "IGNORE_SHAPES_LAYERS =
     [''ruler_line'', ''crosshair'', ''scalebar'', ''label'', ''alignment_area'',
      ''saved-stage-positions'', ''current-stage-position'']"

definition IMAGE_PATTERN_LAYERS :: "string list" where
  "IMAGE_PATTERN_LAYERS = [''annulus-layer'', ''bmp_Image'']"

definition NAPARI_DRAWING_FUNCTIONS ::
  "settings_type \<rightharpoonup> (pattern_settings \<Rightarrow> int \<times> int \<Rightarrow> real \<Rightarrow> error + napari_shape)" where
  "NAPARI_DRAWING_FUNCTIONS =
     [RectangleType \<mapsto> convert_pattern_to_napari_rect,
      CircleType \<mapsto> convert_pattern_to_napari_circle,
      LineType \<mapsto> convert_pattern_to_napari_line,
      BitmapType \<mapsto> convert_bitmap_pattern_to_napari_image]"

definition NAPARI_PATTERN_LAYER_TYPES :: "settings_type \<rightharpoonup> string" where
  "NAPARI_PATTERN_LAYER_TYPES =
     [RectangleType \<mapsto> ''rectangle'',
      CircleType \<mapsto> ''ellipse'',
      LineType \<mapsto> ''line'',
      BitmapType \<mapsto> ''image'']"

text \<open>
  The inner loop of draw_milling_patterns_in_napari (lines 296-308) over the settings of
  one stage. The state of the loop is the lists \<open>napari_shapes\<close> and \<open>shape_types\<close> and the
  warnings logged so far.
\<close>

record drawn =
  napari_shapes :: "napari_shape list"
  shape_types :: "string option list"
  warnings :: "log_record list"

fun draw_pattern_settings ::
  "pattern_settings list \<Rightarrow> int \<times> int \<Rightarrow> real \<Rightarrow> drawn \<Rightarrow> error + drawn" where
  "draw_pattern_settings [] image_shape pixelsize d = Inr d"
| "draw_pattern_settings (pattern_settings # rest) image_shape pixelsize d =
     (case NAPARI_DRAWING_FUNCTIONS (type_of pattern_settings) of
        None \<Rightarrow>
          draw_pattern_settings rest image_shape pixelsize
            (d\<lparr>warnings := warnings d @ [WarningNotSupported (type_of pattern_settings)]\<rparr>)
      | Some napari_drawing_fn \<Rightarrow>
          (case napari_drawing_fn pattern_settings image_shape pixelsize of
             Inl e \<Rightarrow> Inl e
           | Inr shape \<Rightarrow>
               draw_pattern_settings rest image_shape pixelsize
                 (d\<lparr>napari_shapes := napari_shapes d @ [shape],
                    shape_types := shape_types d
                      @ [NAPARI_PATTERN_LAYER_TYPES (type_of pattern_settings)]\<rparr>)))"

text \<open>
  The outer loop (lines 288-330) over the stages, numbered from \<open>i\<close>. Its state is the
  three lists \<open>all_napari_shapes\<close>, \<open>all_shape_types\<close>, \<open>all_shape_colours\<close> and the
  warnings.
\<close>

record all_drawn =
  all_napari_shapes :: "napari_shape list"
  all_shape_types :: "string option list"
  all_shape_colours :: "string list"
  all_warnings :: "log_record list"

fun draw_stages ::
  "nat \<Rightarrow> FibsemMillingStage list \<Rightarrow> nat \<Rightarrow> int \<times> int \<Rightarrow> real \<Rightarrow> bool \<Rightarrow> all_drawn
     \<Rightarrow> error + all_drawn" where
  "draw_stages i [] n_milling_stages image_shape pixelsize draw_crosshair a = Inr a"
| "draw_stages i (stage # rest) n_milling_stages image_shape pixelsize draw_crosshair a =
     (case draw_pattern_settings (defined (pattern stage)) image_shape pixelsize
             \<lparr>napari_shapes = [], shape_types = [], warnings = []\<rparr> of
        Inl e \<Rightarrow> Inl e
      | Inr d \<Rightarrow>
          (let a1 = a\<lparr>all_warnings := all_warnings a @ warnings d\<rparr> in
           if napari_shapes d = [] then
             draw_stages (Suc i) rest n_milling_stages image_shape pixelsize draw_crosshair a1
           else
             (case (if draw_crosshair then
                      create_crosshair_shape (point (pattern stage)) image_shape pixelsize
                    else Inr []) of
                Inl e \<Rightarrow> Inl e
              | Inr crosshair_shapes \<Rightarrow>
                  (let shapes = napari_shapes d @ map Vertices crosshair_shapes;
                       types = shape_types d @ map (\<lambda>c. Some ''rectangle'') crosshair_shapes;
                       is_background = (i \<ge> n_milling_stages);
                       napari_colours =
                         (if is_background then replicate (length shapes) ''black''
                          else replicate (length shapes) (COLOURS ! (i mod length COLOURS)))
                   in draw_stages (Suc i) rest n_milling_stages image_shape pixelsize
                        draw_crosshair
                        (a1\<lparr>all_napari_shapes := all_napari_shapes a1 @ shapes,
                            all_shape_types := all_shape_types a1 @ types,
                            all_shape_colours := all_shape_colours a1 @ napari_colours\<rparr>)))))"

text \<open>
  The viewer: its list of layers. Of a layer the model keeps the name, whether it is a
  shapes layer, and the attributes that the function sets.
\<close>

record layer =
  layer_name :: string
  is_shapes_layer :: bool
  layer_data :: "napari_shape list"
  layer_shape_type :: "string option list"
  layer_edge_color :: "string list"
  layer_face_color :: "string list"
  layer_translate :: "real list"

definition contains_string :: "string \<Rightarrow> string \<Rightarrow> bool" where
  "contains_string part whole \<longleftrightarrow>
     list_ex (\<lambda>k. take (length part) (drop k whole) = part) [0..<Suc (length whole)]"

definition remove_all_napari_shapes_layers :: "layer list \<Rightarrow> string list \<Rightarrow> layer list" where
  "remove_all_napari_shapes_layers layers ignore =
     (let layers_to_ignore = IGNORE_SHAPES_LAYERS @ ignore in
      filter (\<lambda>l. layer_name l \<in> set layers_to_ignore
                 \<or> \<not> (is_shapes_layer l
                       \<or> list_ex (\<lambda>n. contains_string n (layer_name l)) IMAGE_PATTERN_LAYERS))
        layers)"

fun update_layer :: "string \<Rightarrow> (layer \<Rightarrow> layer) \<Rightarrow> layer list \<Rightarrow> layer list" where
  "update_layer n f [] = []"
| "update_layer n f (l # ls) = (if layer_name l = n then f l # ls else l # update_layer n f ls)"

text \<open>
  draw_milling_patterns_in_napari. The arguments \<open>image_shape\<close> and \<open>translation\<close> are
  \<open>image_layer.data.shape\<close> and \<open>image_layer.translate\<close>; no background stages is the
  empty list. The result is the list of layer names returned, the layers of the viewer
  afterwards, and the warnings logged.
\<close>

definition draw_milling_patterns_in_napari ::
  "layer list \<Rightarrow> int \<times> int \<Rightarrow> real list \<Rightarrow> FibsemMillingStage list \<Rightarrow> real \<Rightarrow> bool
     \<Rightarrow> FibsemMillingStage list \<Rightarrow> error + (string list \<times> layer list \<times> log_record list)" where
  "draw_milling_patterns_in_napari layers image_shape translation milling_stages pixelsize
       draw_crosshair background_milling_stages =
     (let all_milling_stages = milling_stages @ background_milling_stages;
          n_milling_stages = length milling_stages
      in case draw_stages 0 all_milling_stages n_milling_stages image_shape pixelsize
                draw_crosshair
                \<lparr>all_napari_shapes = [], all_shape_types = [], all_shape_colours = [],
                 all_warnings = []\<rparr> of
           Inl e \<Rightarrow> Inl e
         | Inr a \<Rightarrow>
             (let n = ''Milling Patterns'';
                  layers1 =
                    (if all_napari_shapes a = [] then layers
                     else if n \<in> set (map layer_name layers) then
                       update_layer n
                         (\<lambda>l. l\<lparr>layer_data := all_napari_shapes a,
                                layer_shape_type := all_shape_types a,
                                layer_edge_color := all_shape_colours a,
                                layer_face_color := all_shape_colours a,
                                layer_translate := translation\<rparr>) layers
                     else
                       layers @ [\<lparr>layer_name = n, is_shapes_layer = True,
                                  layer_data = all_napari_shapes a,
                                  layer_shape_type = all_shape_types a,
                                  layer_edge_color = all_shape_colours a,
                                  layer_face_color = all_shape_colours a,
                                  layer_translate = translation\<rparr>])
              in Inr ([n], remove_all_napari_shapes_layers layers1 [n], all_warnings a)))"

subsection \<open>Placement within the image\<close>

fun validate_pattern_placement :: "int \<times> int \<Rightarrow> vertex list \<Rightarrow> bool" where
  "validate_pattern_placement image_shape [] = True"
| "validate_pattern_placement image_shape ((y_coord, x_coord) # rest) =
     (let x_lim = snd image_shape; y_lim = fst image_shape in
      if x_coord < 0 \<or> x_coord > real_of_int x_lim then False
      else if y_coord < 0 \<or> y_coord > real_of_int y_lim then False
      else validate_pattern_placement image_shape rest)"

text \<open>
  is_pattern_placement_valid. Two things it uses are parameters: the flag that
  \<open>calculate_fiducial_area_v2\<close> (fibsem/structures.py) returns for the image, the point and
  the height, and what \<open>validate_pattern_placement\<close> does with the pair that the bitmap
  function returns, which depends on the pixels of the bitmap. The result comes with the
  warnings logged.
\<close>

fun placement_loop ::
  "(napari_shape \<Rightarrow> error + bool) \<Rightarrow> pattern_settings list \<Rightarrow> FibsemImage
     \<Rightarrow> (error + bool) \<times> log_record list" where
  "placement_loop validate_bitmap [] img = (Inr True, [])"
| "placement_loop validate_bitmap (pattern_settings # rest) img =
     (case NAPARI_DRAWING_FUNCTIONS (type_of pattern_settings) of
        None \<Rightarrow> (Inr False, [WarningNotSupported (type_of pattern_settings)])
      | Some draw_func \<Rightarrow>
          (case draw_func pattern_settings (data_shape img) (pixel_size_x img) of
             Inl e \<Rightarrow> (Inl e, [])
           | Inr napari_shape \<Rightarrow>
               (case (case napari_shape of
                        Vertices vs \<Rightarrow> Inr (validate_pattern_placement (data_shape img) vs)
                      | BitmapImage p rx ry a t \<Rightarrow> validate_bitmap napari_shape) of
                  Inl e \<Rightarrow> (Inl e, [])
                | Inr is_valid_placement \<Rightarrow>
                    if \<not> is_valid_placement then (Inr False, [])
                    else placement_loop validate_bitmap rest img)))"

definition is_pattern_placement_valid ::
  "(FibsemImage \<Rightarrow> Point \<Rightarrow> real \<Rightarrow> bool) \<Rightarrow> (napari_shape \<Rightarrow> error + bool) \<Rightarrow> BasePattern
     \<Rightarrow> FibsemImage \<Rightarrow> (error + bool) \<times> log_record list" where
  "is_pattern_placement_valid fiducial_is_not_valid validate_bitmap p img =
     (if is_fiducial p then
        (Inr (\<not> fiducial_is_not_valid img (point p) (height p)), [])
      else placement_loop validate_bitmap (defined p) img)"

subsection \<open>Reduced areas\<close>

definition convert_reduced_area_to_napari_shape :: "FibsemRectangle \<Rightarrow> int \<times> int \<Rightarrow> vertex list" where
  "convert_reduced_area_to_napari_shape reduced_area image_shape =
     (let x0 = rect_left reduced_area * real_of_int (snd image_shape);
          y0 = rect_top reduced_area * real_of_int (fst image_shape);
          x1 = x0 + rect_width reduced_area * real_of_int (snd image_shape);
          y1 = y0 + rect_height reduced_area * real_of_int (fst image_shape)
      in [(y0, x0), (y0, x1), (y1, x1), (y1, x0)])"

text \<open>
  convert_shape_to_image_area. \<open>shape[0]\<close> and \<open>shape[1]\<close> are read first, so a shape of
  fewer than two vertices raises IndexError; the divisions are those of Python numbers.
\<close>

definition convert_shape_to_image_area :: "vertex list \<Rightarrow> int \<times> int \<Rightarrow> error + FibsemRectangle" where
  "convert_shape_to_image_area shape image_shape =
     (if length shape < 2 then Inl IndexError
      else
        (let x_coords = map snd shape;
             y_coords = map fst shape;
             x0 = fold min (tl x_coords) (hd x_coords);
             x1 = fold max (tl x_coords) (hd x_coords);
             y0 = fold min (tl y_coords) (hd y_coords);
             y1 = fold max (tl y_coords) (hd y_coords)
         in if snd image_shape = 0 \<or> fst image_shape = 0 then Inl ZeroDivisionError
            else
              (let x0 = x0 / real_of_int (snd image_shape);
                   x1 = x1 / real_of_int (snd image_shape);
                   y0 = y0 / real_of_int (fst image_shape);
                   y1 = y1 / real_of_int (fst image_shape);
                   w = x1 - x0;
                   h = y1 - y0
               in Inr \<lparr>rect_left = x0, rect_top = y0, rect_width = w, rect_height = h\<rparr>)))"

subsection \<open>The rectangle that convert_pattern_to_napari_rect is to draw\<close>

text \<open>
  In the words of its description: the turn of a point \<open>(x, y)\<close> about the origin by an
  angle, and the four corners of a \<open>w\<close> by \<open>h\<close> rectangle about \<open>(cx, cy)\<close> turned by
  that angle, as vertices \<open>[y, x]\<close>.
\<close>

definition turn :: "real \<Rightarrow> real \<times> real \<Rightarrow> real \<times> real" where
  "turn a p = (fst p * cos a - snd p * sin a, fst p * sin a + snd p * cos a)"

definition corner :: "real \<times> real \<Rightarrow> real \<Rightarrow> real \<times> real \<Rightarrow> vertex" where
  "corner c a offset = (snd c + snd (turn a offset), fst c + fst (turn a offset))"

definition rectangle_corners :: "real \<times> real \<Rightarrow> real \<Rightarrow> real \<Rightarrow> real \<Rightarrow> vertex list" where
  "rectangle_corners c w h a =
     map (corner c a) [(- w / 2, - h / 2), (w / 2, - h / 2), (w / 2, h / 2), (- w / 2, h / 2)]"

definition dist2 :: "vertex \<Rightarrow> vertex \<Rightarrow> real" where
  "dist2 p q = (fst p - fst q)\<^sup>2 + (snd p - snd q)\<^sup>2"

subsection \<open>Patterns of a class without a drawing function\<close>

text \<open>
  A settings object is supported when the table has a drawing function for its class.
  \<open>without_unsupported\<close> is a stage whose pattern defines the supported objects only, and
  \<open>unsupported_warnings\<close> the warnings for the other objects of a list of stages, in order.
\<close>

definition supported :: "pattern_settings \<Rightarrow> bool" where
  "supported s =
     (case NAPARI_DRAWING_FUNCTIONS (type_of s) of None \<Rightarrow> False | Some f \<Rightarrow> True)"

definition without_unsupported :: "FibsemMillingStage \<Rightarrow> FibsemMillingStage" where
  "without_unsupported stage =
     stage\<lparr>pattern := (pattern stage)\<lparr>defined := filter supported (defined (pattern stage))\<rparr>\<rparr>"

definition unsupported_warnings :: "pattern_settings list \<Rightarrow> log_record list" where
  "unsupported_warnings ps =
     map (\<lambda>s. WarningNotSupported (type_of s)) (filter (\<lambda>s. \<not> supported s) ps)"

definition stages_warnings :: "FibsemMillingStage list \<Rightarrow> log_record list" where
  "stages_warnings stages = concat (map (\<lambda>stage. unsupported_warnings (defined (pattern stage))) stages)"

section \<open>Proofs: the runners\<close>

subsection \<open>The calls into the missing modules, and loops\<close>

lemma start_of_stage_update_simps [simp]:
  "positions (start_of_stage_update h i s r w) = (positions w)[i := on_start h (calls w) (positions w ! i) s r]"
  "calls (start_of_stage_update h i s r w) = calls w @ [StartOfStageUpdate i (positions w ! i) s r]"
  by (simp_all add: start_of_stage_update_def Let_def)

lemma call_stage_fn_simps [simp]:
  "positions (call_stage_fn h f i w) = (positions w)[i := on_stage h (calls w) f (positions w ! i)]"
  "calls (call_stage_fn h f i w) = calls w @ [StageFunction f i]"
  by (simp_all add: call_stage_fn_def)

lemma end_of_stage_update_simps [simp]:
  "positions (end_of_stage_update h i r w) = (positions w)[i := on_end h (calls w) (positions w ! i) r]"
  "calls (end_of_stage_update h i r w) = calls w @ [EndOfStageUpdate i r]"
  by (simp_all add: end_of_stage_update_def)

lemma emit_simps [simp]:
  "positions (emit cs w) = positions w"
  "calls (emit cs w) = calls w @ cs"
  by (simp_all add: emit_def)

lemma log_status_message_simps [simp]:
  "positions (log_status_message i m w) = positions w"
  "calls (log_status_message i m w) = calls w @ [LogStatusMessage i m]"
  by (simp_all add: log_status_message_def)

lemma ask_user_simps [simp]:
  "positions (snd (ask_user h m b w)) = positions w"
  "calls (snd (ask_user h m b w)) = calls w @ [AskUser m b (user h (calls w) m)]"
  "fst (ask_user h m b w) = user h (calls w) m"
  by (simp_all add: ask_user_def Let_def)

lemma for_each_invariant:
  assumes "I w" and "\<And>x v. x \<in> set xs \<Longrightarrow> I v \<Longrightarrow> I (final (body x v))"
  shows "I (final (for_each body xs w))"
  using assms
proof (induction xs arbitrary: w)
  case Nil
  then show ?case by simp
next
  case (Cons x xs)
  have step: "I (final (body x w))" using Cons.prems by simp
  show ?case
  proof (cases "body x w")
    case (Returned w')
    with step have "I w'" by simp
    then have "I (final (for_each body xs w'))"
      using Cons.IH Cons.prems(2) by simp
    with Returned show ?thesis by simp
  next
    case (Raised e w')
    with step show ?thesis by simp
  qed
qed

subsection \<open>An empty experiment\<close>

lemma log_null_end_empty: "positions w = [] \<Longrightarrow> log_null_end w = Raised UnboundLocalError w"
  by (simp add: log_null_end_def)

lemma indices_empty: "positions w = [] \<Longrightarrow> indices w = []"
  by (simp add: indices_def)

lemma milling_stage_empty:
  "positions w = [] \<Longrightarrow>
   milling_stage h stc s w = Returned (if s \<in> set stc then w else emit [LogSkippingStage s] w)"
  by (simp add: milling_stage_def indices_empty)

text \<open>
  Claim C9. When \<open>experiment.positions\<close> is empty, run_trench_milling,
  run_setup_lamella and run_lamella_milling do not return: each raises UnboundLocalError,
  because the loop variable \<open>lamella\<close> that \<open>log_status_message\<close> is given after the loops was
  never bound. Before that, run_lamella_milling has only logged the stages it leaves out.
\<close>

theorem empty_experiment_unbound:
  assumes "positions w = []"
  shows "run_trench_milling h w = Raised UnboundLocalError w
       \<and> run_setup_lamella h w = Raised UnboundLocalError w
       \<and> raised (run_lamella_milling h stages_to_complete w) = Some UnboundLocalError
       \<and> positions (final (run_lamella_milling h stages_to_complete w)) = []
       \<and> calls (final (run_lamella_milling h stages_to_complete w))
           = calls w @ map LogSkippingStage
                         (filter (\<lambda>s. s \<notin> set stages_to_complete) LAMELLA_MILLING_WORKFLOW)"
proof -
  have t: "run_trench_milling h w = Raised UnboundLocalError w"
    using assms by (simp add: run_trench_milling_def indices_empty log_null_end_empty)
  have s: "run_setup_lamella h w = Raised UnboundLocalError w"
    using assms by (simp add: run_setup_lamella_def indices_empty log_null_end_empty)
  define w1 where "w1 = (if MillRough \<in> set stages_to_complete then w else emit [LogSkippingStage MillRough] w)"
  define w2 where "w2 = (if SetupPolishing \<in> set stages_to_complete then w1 else emit [LogSkippingStage SetupPolishing] w1)"
  define w3 where "w3 = (if MillPolishing \<in> set stages_to_complete then w2 else emit [LogSkippingStage MillPolishing] w2)"
  have p1: "positions w1 = []" using assms by (simp add: w1_def)
  have p2: "positions w2 = []" using p1 by (simp add: w2_def)
  have p3: "positions w3 = []" using p2 by (simp add: w3_def)
  have loop: "for_each (milling_stage h stages_to_complete) LAMELLA_MILLING_WORKFLOW w = Returned w3"
    using assms p1 p2
    by (simp add: LAMELLA_MILLING_WORKFLOW_def milling_stage_empty w1_def w2_def w3_def)
  have m: "run_lamella_milling h stages_to_complete w = Raised UnboundLocalError w3"
    using p3 by (simp add: run_lamella_milling_def loop indices_empty log_null_end_empty)
  have c: "calls w3 = calls w @ map LogSkippingStage
             (filter (\<lambda>s. s \<notin> set stages_to_complete) LAMELLA_MILLING_WORKFLOW)"
    by (simp add: w3_def w2_def w1_def LAMELLA_MILLING_WORKFLOW_def)
  show ?thesis using t s m p3 c by simp
qed

theorem empty_experiment_unbound_witness:
  "run_trench_milling agreeing (experiment_of []) = Raised UnboundLocalError (experiment_of [])
   \<and> run_setup_lamella agreeing (experiment_of []) = Raised UnboundLocalError (experiment_of [])
   \<and> raised (run_lamella_milling agreeing [MillRough, MillPolishing] (experiment_of []))
       = Some UnboundLocalError
   \<and> calls (final (run_lamella_milling agreeing [MillRough, MillPolishing] (experiment_of [])))
       = [LogSkippingStage SetupPolishing]"
  using empty_experiment_unbound [of "experiment_of []" agreeing "[MillRough, MillPolishing]"]
  by (simp add: experiment_of_def LAMELLA_MILLING_WORKFLOW_def)

subsection \<open>Trench milling\<close>

lemma trench_body_effect:
  "\<exists>w'. trench_body h i w = Returned w'
        \<and> calls w' = calls w @ trench_calls i (positions w ! i)
        \<and> length (positions w') = length (positions w)
        \<and> (\<forall>j. j \<noteq> i \<longrightarrow> positions w' ! j = positions w ! j)
        \<and> (\<not> trench_ready (positions w ! i) \<longrightarrow> positions w' = positions w)"
  by (simp add: trench_body_def trench_calls_def trench_ready_def Let_def)

lemma trench_loop_effect:
  assumes "distinct js"
  shows "\<exists>w'. for_each (trench_body h) js w = Returned w'
        \<and> calls w' = calls w @ concat (map (\<lambda>i. trench_calls i (positions w ! i)) js)
        \<and> length (positions w') = length (positions w)
        \<and> (\<forall>j. j \<notin> set js \<or> \<not> trench_ready (positions w ! j)
               \<longrightarrow> positions w' ! j = positions w ! j)"
  using assms
proof (induction js arbitrary: w)
  case Nil
  show ?case by simp
next
  case (Cons i js)
  from trench_body_effect [of h i w] obtain w1 where
    b: "trench_body h i w = Returned w1"
    and c1: "calls w1 = calls w @ trench_calls i (positions w ! i)"
    and l1: "length (positions w1) = length (positions w)"
    and o1: "\<forall>j. j \<noteq> i \<longrightarrow> positions w1 ! j = positions w ! j"
    and n1: "\<not> trench_ready (positions w ! i) \<longrightarrow> positions w1 = positions w"
    by blast
  from Cons.prems have d: "distinct js" and ni: "i \<notin> set js" by simp_all
  from Cons.IH [OF d, of w1] obtain w' where
    f: "for_each (trench_body h) js w1 = Returned w'"
    and c: "calls w' = calls w1 @ concat (map (\<lambda>i. trench_calls i (positions w1 ! i)) js)"
    and l: "length (positions w') = length (positions w1)"
    and o: "\<forall>j. j \<notin> set js \<or> \<not> trench_ready (positions w1 ! j)
               \<longrightarrow> positions w' ! j = positions w1 ! j"
    by blast
  have same: "map (\<lambda>i. trench_calls i (positions w1 ! i)) js
                = map (\<lambda>i. trench_calls i (positions w ! i)) js"
    using o1 ni by (intro map_cong) auto
  have keep: "positions w' ! j = positions w ! j"
    if "j \<notin> set (i # js) \<or> \<not> trench_ready (positions w ! j)" for j
  proof (cases "j = i")
    case True
    with that ni have nr: "\<not> trench_ready (positions w ! i)" by auto
    with n1 have "positions w1 = positions w" by simp
    moreover have "positions w' ! i = positions w1 ! i" using o ni by blast
    ultimately show ?thesis using True by simp
  next
    case False
    with o1 have e: "positions w1 ! j = positions w ! j" by simp
    with that False o show ?thesis by auto
  qed
  show ?case
    using b f c c1 l l1 same keep by simp
qed

text \<open>
  Claim C4. run_trench_milling goes through \<open>experiment.positions\<close> in the order of the list
  and, for exactly the positions that are at PositionReady and have not failed, calls
  \<open>start_of_stage_update\<close> to MillTrench, then \<open>mill_trench\<close>, then \<open>end_of_stage_update\<close>, in
  that order; it makes no other call but the \<open>log_status_message\<close> at the end, and the
  record of every other position stays as it is. With at least one position it returns.
\<close>

theorem run_trench_milling_calls:
  "calls (final (run_trench_milling h w))
     = calls w
       @ concat (map (\<lambda>i. trench_calls i (positions w ! i)) [0..<length (positions w)])
       @ (if positions w = [] then []
          else [LogStatusMessage (length (positions w) - 1) ''NULL_END''])
   \<and> length (positions (final (run_trench_milling h w))) = length (positions w)
   \<and> (\<forall>i < length (positions w). \<not> trench_ready (positions w ! i)
          \<longrightarrow> positions (final (run_trench_milling h w)) ! i = positions w ! i)
   \<and> (positions w \<noteq> [] \<longrightarrow> raised (run_trench_milling h w) = None)"
proof -
  from trench_loop_effect [of "indices w" h w] obtain w' where
    f: "for_each (trench_body h) (indices w) w = Returned w'"
    and c: "calls w' = calls w @ concat (map (\<lambda>i. trench_calls i (positions w ! i)) (indices w))"
    and l: "length (positions w') = length (positions w)"
    and o: "\<forall>j. j \<notin> set (indices w) \<or> \<not> trench_ready (positions w ! j)
               \<longrightarrow> positions w' ! j = positions w ! j"
    by (auto simp: indices_def)
  have e: "positions w' = [] \<longleftrightarrow> positions w = []" using l by auto
  have r: "run_trench_milling h w
             = (if positions w = [] then Raised UnboundLocalError w'
                else Returned (log_status_message (length (positions w) - 1) ''NULL_END'' w'))"
    using e l by (simp add: run_trench_milling_def f log_null_end_def)
  show ?thesis using c l o by (simp add: r indices_def)
qed

theorem run_trench_milling_calls_witness:
  "calls (final (run_trench_milling agreeing
      (experiment_of [lamella_at ''a'' PositionReady False, lamella_at ''b'' MillTrench False,
                      lamella_at ''c'' PositionReady True, lamella_at ''d'' PositionReady False])))
     = [StartOfStageUpdate 0 (lamella_at ''a'' PositionReady False) MillTrench None,
        StageFunction mill_trench 0, EndOfStageUpdate 0 None,
        StartOfStageUpdate 3 (lamella_at ''d'' PositionReady False) MillTrench None,
        StageFunction mill_trench 3, EndOfStageUpdate 3 None,
        LogStatusMessage 3 ''NULL_END'']
   \<and> positions (final (run_trench_milling agreeing
      (experiment_of [lamella_at ''a'' PositionReady False, lamella_at ''b'' MillTrench False,
                      lamella_at ''c'' PositionReady True, lamella_at ''d'' PositionReady False])))
       ! 2 = lamella_at ''c'' PositionReady True"
  using run_trench_milling_calls
    [of agreeing
        "experiment_of [lamella_at ''a'' PositionReady False, lamella_at ''b'' MillTrench False,
                      lamella_at ''c'' PositionReady True, lamella_at ''d'' PositionReady False]"]
  by (simp add: experiment_of_def lamella_at_def trench_calls_def trench_ready_def upt_rec)

subsection \<open>Failed positions\<close>

lemma final_case:
  "final (case r of Raised e w' \<Rightarrow> Raised e w' | Returned w' \<Rightarrow> g w')
     = (case r of Raised e w' \<Rightarrow> w' | Returned w' \<Rightarrow> final (g w'))"
  by (cases r) simp_all


lemma skipped_iff:
  "skipped i w w' \<longleftrightarrow>
     length (positions w') = length (positions w) \<and> positions w' ! i = positions w ! i
     \<and> (\<exists>cs. calls w' = calls w @ cs \<and> (\<forall>c \<in> set cs. \<not> stage_call_on i c))"
  by (auto simp: skipped_def new_calls_def list_ex_iff)

lemma skipped_refl: "skipped i w w"
  by (simp add: skipped_iff)

lemma skipped_trans: "skipped i w v \<Longrightarrow> skipped i v u \<Longrightarrow> skipped i w u"
  by (fastforce simp: skipped_iff)

lemma skipped_emit: "\<forall>c \<in> set cs. \<not> stage_call_on i c \<Longrightarrow> skipped i w (emit cs w)"
  by (simp add: skipped_iff)

lemma skipped_start: "j \<noteq> i \<Longrightarrow> skipped i w (start_of_stage_update h j s r w)"
  by (simp add: skipped_iff)

lemma skipped_stage: "j \<noteq> i \<Longrightarrow> skipped i w (call_stage_fn h f j w)"
  by (simp add: skipped_iff)

lemma skipped_end: "j \<noteq> i \<Longrightarrow> skipped i w (end_of_stage_update h j r w)"
  by (simp add: skipped_iff)

lemma skipped_log: "skipped i w (log_status_message j m w)"
  by (simp add: skipped_iff)

lemma skipped_three:
  "j \<noteq> i \<Longrightarrow>
   skipped i w (end_of_stage_update h j r (call_stage_fn h f j (start_of_stage_update h j s r' w)))"
  by (blast intro: skipped_trans skipped_start skipped_stage skipped_end)

lemma skipped_failure: "skipped i w v \<Longrightarrow> is_failure (positions w ! i) \<Longrightarrow> is_failure (positions v ! i)"
  by (simp add: skipped_iff)

lemma trench_body_skips:
  "is_failure (positions w ! i) \<Longrightarrow> skipped i w (final (trench_body h j w))"
  by (cases "j = i") (auto simp: trench_body_def Let_def skipped_refl skipped_three)

lemma undercut_body_skips:
  "is_failure (positions w ! i) \<Longrightarrow> skipped i w (final (undercut_body h j w))"
  by (cases "j = i")
     (auto simp: undercut_body_def Let_def intro: skipped_trans skipped_three skipped_log)

lemma setup_body_skips:
  "is_failure (positions w ! i) \<Longrightarrow> skipped i w (final (setup_body h j w))"
  by (cases "j = i") (auto simp: setup_body_def Let_def skipped_refl skipped_three)

lemma finish_body_skips:
  "is_failure (positions w ! i) \<Longrightarrow> skipped i w (final (finish_body h j w))"
  by (cases "j = i")
     (auto simp: finish_body_def Let_def skipped_refl intro: skipped_trans skipped_start skipped_end)

lemma milling_body_skips:
  "is_failure (positions w ! i) \<Longrightarrow> skipped i w (final (milling_body h stage j w))"
  by (cases "j = i")
     (auto simp: milling_body_def Let_def skipped_refl skipped_three skipped_start
           split: sum.splits option.splits)

lemma log_null_end_skips: "skipped i w (final (log_null_end w))"
  by (simp add: log_null_end_def skipped_refl skipped_log)

text \<open>A loop whose body skips a failed position skips it.\<close>

lemma loop_skips:
  assumes f: "is_failure (positions w ! i)"
    and body: "\<And>x v. is_failure (positions v ! i) \<Longrightarrow> skipped i v (final (body x v))"
  shows "skipped i w (final (for_each body xs w))"
proof -
  have "skipped i w (final (for_each body xs w))"
  proof (rule for_each_invariant [where I = "\<lambda>v. skipped i w v"])
    show "skipped i w w" by (rule skipped_refl)
  next
    fix x v
    assume "skipped i w v"
    moreover from this f have "is_failure (positions v ! i)" by (rule skipped_failure)
    then have "skipped i v (final (body x v))" by (rule body)
    ultimately show "skipped i w (final (body x v))" by (rule skipped_trans)
  qed
  then show ?thesis .
qed

lemma then_skips:
  assumes f: "is_failure (positions w ! i)"
    and r: "skipped i w (final r)"
    and g: "\<And>v. is_failure (positions v ! i) \<Longrightarrow> skipped i v (final (g v))"
  shows "skipped i w (final (case r of Raised e w' \<Rightarrow> Raised e w' | Returned w' \<Rightarrow> g w'))"
proof (cases r)
  case (Returned v)
  with r have s: "skipped i w v" by simp
  from s f have "is_failure (positions v ! i)" by (rule skipped_failure)
  then have "skipped i v (final (g v))" by (rule g)
  with s Returned show ?thesis by (auto intro: skipped_trans)
next
  case (Raised e v)
  with r show ?thesis by simp
qed

lemma run_trench_milling_skips:
  "is_failure (positions w ! i) \<Longrightarrow> skipped i w (final (run_trench_milling h w))"
  unfolding run_trench_milling_def
  by (intro then_skips loop_skips trench_body_skips log_null_end_skips)

lemma run_undercut_milling_skips:
  "is_failure (positions w ! i) \<Longrightarrow> skipped i w (final (run_undercut_milling h w))"
  unfolding run_undercut_milling_def
  by (intro loop_skips undercut_body_skips)

lemma run_setup_lamella_skips:
  "is_failure (positions w ! i) \<Longrightarrow> skipped i w (final (run_setup_lamella h w))"
  unfolding run_setup_lamella_def
  by (intro then_skips loop_skips setup_body_skips log_null_end_skips)

lemma milling_stage_skips:
  "is_failure (positions w ! i) \<Longrightarrow> skipped i w (final (milling_stage h stc stage w))"
  unfolding milling_stage_def
  by (auto intro: loop_skips milling_body_skips skipped_emit)

lemma run_lamella_milling_skips:
  "is_failure (positions w ! i) \<Longrightarrow> skipped i w (final (run_lamella_milling h stc w))"
  unfolding run_lamella_milling_def
  by (intro then_skips loop_skips milling_stage_skips finish_body_skips log_null_end_skips)

lemma spot_burn_loop_skips: "skipped i w (spot_burn_loop h js w)"
proof (induction js arbitrary: w)
  case Nil
  show ?case by (simp add: skipped_refl)
next
  case (Cons j js)
  let ?w1 = "emit [LoggingInfo (''Running spot burn workflow for '' @ name (positions w ! j)),
                   GetTargetPosition j, SafeAbsoluteStageMovement j,
                   TakeReferenceImages j ''ref_spot_burn_start'', SetImagesUI] w"
  let ?msg = "''Run the spot burn workflow for '' @ name (positions w ! j)
                @ ''. Press continue when finished.''"
  let ?w2 = "snd (ask_user h ?msg (Some True) ?w1)"
  let ?w3 = "emit [TakeReferenceImages j ''ref_spot_burn_end'', SetImagesUI] ?w2"
  have s2: "skipped i w ?w2" by (simp add: skipped_iff)
  have s3: "skipped i w ?w3" by (simp add: skipped_iff)
  have "spot_burn_loop h (j # js) w
          = (if \<not> fst (ask_user h ?msg (Some True) ?w1) then ?w2 else spot_burn_loop h js ?w3)"
    by (simp add: Let_def case_prod_beta)
  then show ?case
    using s2 skipped_trans [OF s3 Cons.IH [of ?w3]] by simp
qed

lemma spot_burn_loop_continuing:
  assumes "\<forall>cs m. user h cs m"
  shows "spot_burn_loop h js w
           = w\<lparr>calls := calls w @ concat (map (\<lambda>j. spot_burn_calls j (positions w ! j)) js)\<rparr>"
proof (induction js arbitrary: w)
  case Nil
  show ?case by simp
next
  case (Cons j js)
  show ?case
    using assms
    by (simp add: Let_def ask_user_def emit_def Cons.IH spot_burn_calls_def)
qed

text \<open>
  Claim C1. For a position whose failure flag is set, each runner that goes through
  \<open>experiment.positions\<close> (run_trench_milling, run_undercut_milling, run_setup_lamella,
  run_lamella_milling, run_spot_burn_workflow) skips it: the runner makes no call of
  \<open>start_of_stage_update\<close>, of a stage function or of \<open>end_of_stage_update\<close> on it, and its
  record stays as it is.
\<close>

theorem failed_positions_skipped:
  assumes "i < length (positions w)" and "is_failure (positions w ! i)"
  shows "skipped i w (final (run_trench_milling h w))
       \<and> skipped i w (final (run_undercut_milling h w))
       \<and> skipped i w (final (run_setup_lamella h w))
       \<and> skipped i w (final (run_lamella_milling h stages_to_complete w))
       \<and> skipped i w (run_spot_burn_workflow h w)"
proof -
  have trench: "skipped i w (final (run_trench_milling h w))"
    by (rule run_trench_milling_skips [OF assms(2)])
  have undercut: "skipped i w (final (run_undercut_milling h w))"
    by (rule run_undercut_milling_skips [OF assms(2)])
  have lamella: "skipped i w (final (run_setup_lamella h w))"
    by (rule run_setup_lamella_skips [OF assms(2)])
  have milling: "skipped i w (final (run_lamella_milling h stages_to_complete w))"
    by (rule run_lamella_milling_skips [OF assms(2)])
  have burn: "skipped i w (run_spot_burn_workflow h w)"
    unfolding run_spot_burn_workflow_def by (rule spot_burn_loop_skips)
  show ?thesis using trench undercut lamella milling burn by blast
qed

theorem failed_positions_skipped_witness:
  "skipped 1 (experiment_of [lamella_at ''a'' PositionReady False, lamella_at ''b'' PositionReady True])
     (final (run_trench_milling agreeing
        (experiment_of [lamella_at ''a'' PositionReady False, lamella_at ''b'' PositionReady True])))
   \<and> calls (final (run_trench_milling agreeing
        (experiment_of [lamella_at ''a'' PositionReady False, lamella_at ''b'' PositionReady True])))
      = [StartOfStageUpdate 0 (lamella_at ''a'' PositionReady False) MillTrench None,
         StageFunction mill_trench 0, EndOfStageUpdate 0 None, LogStatusMessage 1 ''NULL_END'']
   \<and> positions (final (run_trench_milling agreeing
        (experiment_of [lamella_at ''a'' PositionReady False, lamella_at ''b'' PositionReady True])))
      = [lamella_at ''a'' MillTrench False, lamella_at ''b'' PositionReady True]
   \<and> skipped 1 (experiment_of [lamella_at ''a'' PositionReady False, lamella_at ''b'' PositionReady True])
        (final (run_lamella_milling agreeing LAMELLA_MILLING_WORKFLOW
          (experiment_of [lamella_at ''a'' PositionReady False, lamella_at ''b'' PositionReady True])))
   \<and> skipped 1 (experiment_of [lamella_at ''a'' PositionReady False, lamella_at ''b'' PositionReady True])
        (run_spot_burn_workflow agreeing
          (experiment_of [lamella_at ''a'' PositionReady False, lamella_at ''b'' PositionReady True]))"
proof -
  let ?w = "experiment_of [lamella_at ''a'' PositionReady False, lamella_at ''b'' PositionReady True]"
  have i: "1 < length (positions ?w)" and f: "is_failure (positions ?w ! 1)"
    by (simp_all add: experiment_of_def lamella_at_def)
  note t = failed_positions_skipped [OF i f, of agreeing LAMELLA_MILLING_WORKFLOW]
  from t have s: "skipped 1 ?w (final (run_trench_milling agreeing ?w))"
    and m: "skipped 1 ?w (final (run_lamella_milling agreeing LAMELLA_MILLING_WORKFLOW ?w))"
    and b: "skipped 1 ?w (run_spot_burn_workflow agreeing ?w)"
    by blast+
  have r: "run_trench_milling agreeing ?w
      = Returned \<lparr>positions = [lamella_at ''a'' MillTrench False, lamella_at ''b'' PositionReady True],
                  calls = [StartOfStageUpdate 0 (lamella_at ''a'' PositionReady False) MillTrench None,
                           StageFunction mill_trench 0, EndOfStageUpdate 0 None,
                           LogStatusMessage 1 ''NULL_END'']\<rparr>"
    by (simp add: experiment_of_def lamella_at_def agreeing_def example_env_def
          run_trench_milling_def indices_def upt_rec trench_body_def log_null_end_def
          start_of_stage_update_def call_stage_fn_def end_of_stage_update_def
          log_status_message_def emit_def Let_def)
  from s m b show ?thesis by (simp add: r)
qed

text \<open>
  A remark on run_spot_burn_workflow. It has no test of the failure flag, and it needs
  none to skip a failed position in the sense above, since it makes no stage call at all
  and changes no record. What it does for a position (it moves the microscope stage
  there, takes the reference images and prompts the user) it does for every position in
  order while the user continues, whatever the flag.
\<close>

lemma spot_burn_goes_to_every_position:
  assumes "\<forall>cs m. user h cs m"
  shows "calls (run_spot_burn_workflow h w)
           = calls w @ concat (map (\<lambda>j. spot_burn_calls j (positions w ! j))
                                 [0..<length (positions w)])"
    and "i < length (positions w) \<Longrightarrow>
         list_ex (visits i) (new_calls w (run_spot_burn_workflow h w))"
proof -
  show c: "calls (run_spot_burn_workflow h w)
             = calls w @ concat (map (\<lambda>j. spot_burn_calls j (positions w ! j))
                                   [0..<length (positions w)])"
    by (simp add: run_spot_burn_workflow_def indices_def spot_burn_loop_continuing [OF assms])
  assume i: "i < length (positions w)"
  have "GetTargetPosition i \<in> set (spot_burn_calls i (positions w ! i))"
    by (simp add: spot_burn_calls_def)
  with i have "GetTargetPosition i \<in> set (new_calls w (run_spot_burn_workflow h w))"
    by (auto simp: new_calls_def c)
  then show "list_ex (visits i) (new_calls w (run_spot_burn_workflow h w))"
    by (auto simp: list_ex_iff intro: bexI [where x = "GetTargetPosition i"])
qed

subsection \<open>The milling state machine\<close>


















subsection \<open>Supervision\<close>

lemma adds_iff: "adds P w v \<longleftrightarrow> (\<exists>cs. calls v = calls w @ cs \<and> (\<forall>c \<in> set cs. P c))"
  by (auto simp: adds_def new_calls_def list_all_iff)




lemma adds_emit: "\<forall>c \<in> set cs. P c \<Longrightarrow> adds P w (emit cs w)"
  by (simp add: adds_iff)



lemma quiet_simps [simp]:
  "quiet S (StartOfStageUpdate i l s r) \<longleftrightarrow> s \<in> set S"
  "quiet S (StageFunction f i)"
  "quiet S (EndOfStageUpdate i r)"
  "quiet S (LogStatusMessage i m)"
  "quiet S (LogSkippingStage s)"
  by (simp_all add: quiet_def no_prompt_def)


















lemma ask_continue_simps [simp]:
  "positions (snd (ask_user_continue_workflow h m b w)) = positions w"
  "calls (snd (ask_user_continue_workflow h m b w))
     = calls w @ [AskUserContinueWorkflow m b (continue_workflow h (calls w) m b)]"
  "fst (ask_user_continue_workflow h m b w) = continue_workflow h (calls w) m b"
  by (simp_all add: ask_user_continue_workflow_def Let_def)







subsection \<open>Confirmation before a stage\<close>












section \<open>Proofs: the pattern shapes\<close>

subsection \<open>Placement and reduced areas\<close>

text \<open>
  Claim C8. validate_pattern_placement returns True if and only if every vertex \<open>[y, x]\<close>
  of the shape has \<open>0 \<le> x \<le> width\<close> and \<open>0 \<le> y \<le> height\<close>. Both bounds are inclusive: the
  vertex at \<open>x = width\<close>, \<open>y = height\<close> is accepted.
\<close>

theorem validate_pattern_placement_inclusive:
  "(validate_pattern_placement (h, w) shape \<longleftrightarrow>
      (\<forall>(y, x) \<in> set shape. 0 \<le> x \<and> x \<le> real_of_int w \<and> 0 \<le> y \<and> y \<le> real_of_int h))
   \<and> (0 \<le> h \<longrightarrow> 0 \<le> w \<longrightarrow>
        validate_pattern_placement (h, w) [(real_of_int h, real_of_int w)])"
proof
  show "validate_pattern_placement (h, w) shape \<longleftrightarrow>
      (\<forall>(y, x) \<in> set shape. 0 \<le> x \<and> x \<le> real_of_int w \<and> 0 \<le> y \<and> y \<le> real_of_int h)"
  proof (induction shape)
    case Nil
    show ?case by simp
  next
    case (Cons v vs)
    obtain y_coord x_coord where v: "v = (y_coord, x_coord)" by (cases v)
    show ?case
    proof (cases "x_coord < 0 \<or> x_coord > real_of_int w")
      case True
      then show ?thesis by (auto simp: v)
    next
      case x_ok: False
      show ?thesis
      proof (cases "y_coord < 0 \<or> y_coord > real_of_int h")
        case True
        then show ?thesis using x_ok by (auto simp: v)
      next
        case False
        then show ?thesis using x_ok Cons.IH by (auto simp: v)
      qed
    qed
  qed
next
  show "0 \<le> h \<longrightarrow> 0 \<le> w \<longrightarrow>
        validate_pattern_placement (h, w) [(real_of_int h, real_of_int w)]"
    by simp
qed

theorem validate_pattern_placement_inclusive_witness:
  "validate_pattern_placement (10, 20) [(0, 0), (10, 20), (5, 20), (10, 3)]
   \<and> \<not> validate_pattern_placement (10, 20) [(0, 0), (10, 21)]
   \<and> \<not> validate_pattern_placement (10, 20) [(- 1, 0)]
   \<and> validate_pattern_placement (10, 20) [(real_of_int 10, real_of_int 20)]"
  using validate_pattern_placement_inclusive [of 10 20 "[(0, 0), (10, 20), (5, 20), (10, 3)]"]
        validate_pattern_placement_inclusive [of 10 20 "[(0, 0), (10, 21)]"]
        validate_pattern_placement_inclusive [of 10 20 "[(- 1, 0)]"]
  by simp

text \<open>
  Claim C7. For a reduced area of width and height at least zero and an image whose two
  dimensions are positive, convert_shape_to_image_area gives back the reduced area that
  convert_reduced_area_to_napari_shape was given (over the real numbers).
\<close>

theorem reduced_area_round_trip:
  fixes r :: FibsemRectangle
  assumes "0 \<le> rect_width r" and "0 \<le> rect_height r"
    and "0 < fst image_shape" and "0 < snd image_shape"
  shows "convert_shape_to_image_area (convert_reduced_area_to_napari_shape r image_shape) image_shape
           = Inr r"
proof -
  let ?W = "real_of_int (snd image_shape)"
  let ?H = "real_of_int (fst image_shape)"
  have W: "0 < ?W" and H: "0 < ?H" using assms by simp_all
  have w: "0 \<le> rect_width r * ?W" and h: "0 \<le> rect_height r * ?H"
    using assms W H by simp_all
  have xmin: "min (rect_left r * ?W) (rect_left r * ?W + rect_width r * ?W) = rect_left r * ?W"
    and xmax: "max (rect_left r * ?W) (rect_left r * ?W + rect_width r * ?W)
                 = rect_left r * ?W + rect_width r * ?W"
    and ymin: "min (rect_top r * ?H) (rect_top r * ?H + rect_height r * ?H) = rect_top r * ?H"
    and ymax: "max (rect_top r * ?H) (rect_top r * ?H + rect_height r * ?H)
                 = rect_top r * ?H + rect_height r * ?H"
    using w h by simp_all
  have xmin': "min (rect_left r * ?W + rect_width r * ?W) (rect_left r * ?W) = rect_left r * ?W"
    and xmax': "max (rect_left r * ?W + rect_width r * ?W) (rect_left r * ?W)
                 = rect_left r * ?W + rect_width r * ?W"
    and ymin': "min (rect_top r * ?H + rect_height r * ?H) (rect_top r * ?H) = rect_top r * ?H"
    and ymax': "max (rect_top r * ?H + rect_height r * ?H) (rect_top r * ?H)
                 = rect_top r * ?H + rect_height r * ?H"
    using w h by simp_all
  have ne: "snd image_shape \<noteq> 0" "fst image_shape \<noteq> 0" using assms by simp_all
  have dW: "(rect_left r * ?W + rect_width r * ?W) / ?W - rect_left r = rect_width r"
    using W by (simp add: field_simps)
  have dH: "(rect_top r * ?H + rect_height r * ?H) / ?H - rect_top r = rect_height r"
    using H by (simp add: field_simps)
  have lW: "rect_left r * ?W / ?W = rect_left r" using W by simp
  have lH: "rect_top r * ?H / ?H = rect_top r" using H by simp
  show ?thesis
    unfolding convert_shape_to_image_area_def convert_reduced_area_to_napari_shape_def Let_def
    using ne
    by (simp add: xmin xmax ymin ymax xmin' xmax' ymin' ymax' dW dH lW lH del: min_def max_def)
qed

theorem reduced_area_round_trip_witness:
  "convert_shape_to_image_area
     (convert_reduced_area_to_napari_shape
        \<lparr>rect_left = 1 / 4, rect_top = 1 / 8, rect_width = 1 / 2, rect_height = 0\<rparr> (1024, 1536))
     (1024, 1536)
   = Inr \<lparr>rect_left = 1 / 4, rect_top = 1 / 8, rect_width = 1 / 2, rect_height = 0\<rparr>"
  using reduced_area_round_trip
          [of "\<lparr>rect_left = 1 / 4, rect_top = 1 / 8, rect_width = 1 / 2, rect_height = 0\<rparr>"
              "(1024, 1536)"]
  by simp

subsection \<open>The corners of a rectangle pattern\<close>

lemma turn_squares:
  fixes d e s c :: real
  shows "(d * c - e * s)\<^sup>2 + (d * s + e * c)\<^sup>2 = (d\<^sup>2 + e\<^sup>2) * (s\<^sup>2 + c\<^sup>2)"
  by (simp add: power2_eq_square algebra_simps)

lemma dist2_turn:
  "(fst (turn a p) - fst (turn a q))\<^sup>2 + (snd (turn a p) - snd (turn a q))\<^sup>2
     = (fst p - fst q)\<^sup>2 + (snd p - snd q)\<^sup>2"
proof -
  define d where "d = fst p - fst q"
  define e where "e = snd p - snd q"
  have "fst (turn a p) - fst (turn a q) = d * cos a - e * sin a"
    and "snd (turn a p) - snd (turn a q) = d * sin a + e * cos a"
    by (simp_all add: turn_def d_def e_def algebra_simps)
  then have "(fst (turn a p) - fst (turn a q))\<^sup>2 + (snd (turn a p) - snd (turn a q))\<^sup>2
      = (d * cos a - e * sin a)\<^sup>2 + (d * sin a + e * cos a)\<^sup>2" by simp
  also have "\<dots> = (d\<^sup>2 + e\<^sup>2) * ((sin a)\<^sup>2 + (cos a)\<^sup>2)"
    by (rule turn_squares)
  finally show ?thesis by (simp add: d_def e_def)
qed

lemma dist2_corner: "dist2 (corner c a p) (corner c a q) = (fst p - fst q)\<^sup>2 + (snd p - snd q)\<^sup>2"
  using dist2_turn [of a p q] by (simp add: dist2_def corner_def add.commute)

lemma rectangle_corners_sides:
  "rectangle_corners c w h a = [p0, p1, p2, p3] \<Longrightarrow>
     dist2 p0 p1 = w\<^sup>2 \<and> dist2 p1 p2 = h\<^sup>2 \<and> dist2 p2 p3 = w\<^sup>2 \<and> dist2 p3 p0 = h\<^sup>2
     \<and> dist2 p0 p2 = w\<^sup>2 + h\<^sup>2 \<and> dist2 p1 p3 = w\<^sup>2 + h\<^sup>2"
  by (auto simp: rectangle_corners_def dist2_corner power2_eq_square algebra_simps)

lemma convert_rect_eq:
  assumes "pixelsize \<noteq> 0"
  shows "convert_pattern_to_napari_rect
           (FibsemRectangleSettings pattern_width pattern_height pattern_centre_x pattern_centre_y
              pattern_rotation) shape pixelsize
         = Inr (Vertices (rectangle_corners
             (real_of_int (py_int (real_of_int (snd (get_image_pixel_centre shape))
                                     + pattern_centre_x / pixelsize)),
              real_of_int (py_int (real_of_int (fst (get_image_pixel_centre shape))
                                     - pattern_centre_y / pixelsize)))
             (real_of_int (py_int (pattern_width / pixelsize)))
             (real_of_int (py_int (pattern_height / pixelsize)))
             (- pattern_rotation)))"
  using assms
  by (simp add: get_image_pixel_centre_def Let_def rectangle_corners_def corner_def turn_def)

text \<open>
  Claim C6. For a rectangle pattern and a pixel size other than zero,
  convert_pattern_to_napari_rect returns the four corners, as vertices \<open>[y, x]\<close>, of the
  \<open>w\<close> by \<open>h\<close> rectangle about \<open>(cx, cy)\<close> turned by the negated rotation of the pattern: \<open>w\<close>
  and \<open>h\<close> are the width and the height divided by the pixel size and truncated, and
  \<open>(cx, cy)\<close> is \<open>(icx + centre_x / pixelsize, icy - centre_y / pixelsize)\<close> truncated, with
  \<open>(icy, icx)\<close> the pixel centre of the image. The four vertices do form such a rectangle:
  opposite sides are \<open>w\<close> and \<open>h\<close> long, the diagonals are equal, and they meet at
  \<open>(cx, cy)\<close>.
\<close>

theorem convert_pattern_to_napari_rect_corners:
  assumes "pixelsize \<noteq> 0"
    and "w = real_of_int (py_int (pattern_width / pixelsize))"
    and "h = real_of_int (py_int (pattern_height / pixelsize))"
    and "icy = fst (get_image_pixel_centre shape)"
    and "icx = snd (get_image_pixel_centre shape)"
    and "cx = real_of_int (py_int (real_of_int icx + pattern_centre_x / pixelsize))"
    and "cy = real_of_int (py_int (real_of_int icy - pattern_centre_y / pixelsize))"
    and "ps = rectangle_corners (cx, cy) w h (- pattern_rotation)"
  shows "convert_pattern_to_napari_rect
           (FibsemRectangleSettings pattern_width pattern_height pattern_centre_x pattern_centre_y
              pattern_rotation) shape pixelsize = Inr (Vertices ps)
       \<and> length ps = 4
       \<and> dist2 (ps ! 0) (ps ! 1) = w\<^sup>2 \<and> dist2 (ps ! 1) (ps ! 2) = h\<^sup>2
       \<and> dist2 (ps ! 2) (ps ! 3) = w\<^sup>2 \<and> dist2 (ps ! 3) (ps ! 0) = h\<^sup>2
       \<and> dist2 (ps ! 0) (ps ! 2) = w\<^sup>2 + h\<^sup>2 \<and> dist2 (ps ! 1) (ps ! 3) = w\<^sup>2 + h\<^sup>2
       \<and> ((fst (ps ! 0) + fst (ps ! 2)) / 2, (snd (ps ! 0) + snd (ps ! 2)) / 2) = (cy, cx)"
proof -
  have eq: "convert_pattern_to_napari_rect
           (FibsemRectangleSettings pattern_width pattern_height pattern_centre_x pattern_centre_y
              pattern_rotation) shape pixelsize = Inr (Vertices ps)"
    using convert_rect_eq [OF assms(1)] assms(2-8) by simp
  obtain p0 p1 p2 p3 where ps: "ps = [p0, p1, p2, p3]"
    using assms(8) by (simp add: rectangle_corners_def)
  have sides: "dist2 p0 p1 = w\<^sup>2 \<and> dist2 p1 p2 = h\<^sup>2 \<and> dist2 p2 p3 = w\<^sup>2 \<and> dist2 p3 p0 = h\<^sup>2
     \<and> dist2 p0 p2 = w\<^sup>2 + h\<^sup>2 \<and> dist2 p1 p3 = w\<^sup>2 + h\<^sup>2"
    using rectangle_corners_sides [of "(cx, cy)" w h "- pattern_rotation" p0 p1 p2 p3] ps assms(8)
    by simp
  have mid: "((fst p0 + fst p2) / 2, (snd p0 + snd p2) / 2) = (cy, cx)"
    using ps assms(8) by (auto simp: rectangle_corners_def corner_def turn_def)
  show ?thesis using eq sides mid by (simp add: ps)
qed

theorem convert_pattern_to_napari_rect_corners_witness:
  "convert_pattern_to_napari_rect (FibsemRectangleSettings (21 / 4) 4 2 1 0) (100, 200) (1 / 2)
     = Inr (Vertices [(44, 99), (44, 109), (52, 109), (52, 99)])
   \<and> dist2 (44, 99) (44, 109) = 10\<^sup>2 \<and> dist2 (44, 109) (52, 109) = 8\<^sup>2"
  using convert_pattern_to_napari_rect_corners
          [of "1 / 2" 10 "21 / 4" 8 4 50 "(100, 200)" 100 104 2 48 1
              "[(44, 99), (44, 109), (52, 109), (52, 99)]" 0]
  by (simp add: py_int_def get_image_pixel_centre_def rectangle_corners_def corner_def turn_def)

subsection \<open>Patterns of a class without a drawing function\<close>

lemma supported_alt: "supported s \<longleftrightarrow> NAPARI_DRAWING_FUNCTIONS (type_of s) \<noteq> None"
  by (simp add: supported_def split: option.splits)

lemma supported_iff: "supported s \<longleftrightarrow> (\<forall>n. s \<noteq> OtherSettings n)"
  by (cases s) (simp_all add: supported_alt NAPARI_DRAWING_FUNCTIONS_def)

lemma draw_supported_only:
  "list_all supported ps \<Longrightarrow>
   draw_pattern_settings ps sh px \<lparr>napari_shapes = a, shape_types = b, warnings = ws\<rparr>
     = (case draw_pattern_settings ps sh px \<lparr>napari_shapes = a, shape_types = b, warnings = ws0\<rparr> of
          Inl e \<Rightarrow> Inl e
        | Inr d' \<Rightarrow> Inr (d'\<lparr>warnings := ws\<rparr>))"
proof (induction ps arbitrary: a b)
  case Nil
  show ?case by simp
next
  case (Cons s ps)
  from Cons.prems obtain f where f: "NAPARI_DRAWING_FUNCTIONS (type_of s) = Some f"
    by (auto simp: supported_alt)
  from Cons.prems have rest: "list_all supported ps" by simp
  show ?case
  proof (cases "f s sh px")
    case (Inl e)
    then show ?thesis by (simp add: f)
  next
    case (Inr shape)
    show ?thesis
      using Cons.IH [OF rest, of "a @ [shape]" "b @ [NAPARI_PATTERN_LAYER_TYPES (type_of s)]"]
      by (simp add: f Inr)
  qed
qed

lemma draw_supported_keeps_warnings:
  "list_all supported ps \<Longrightarrow> draw_pattern_settings ps sh px d = Inr d' \<Longrightarrow> warnings d' = warnings d"
proof (induction ps arbitrary: d)
  case Nil
  then show ?case by simp
next
  case (Cons s ps)
  from Cons.prems obtain f where f: "NAPARI_DRAWING_FUNCTIONS (type_of s) = Some f"
    by (auto simp: supported_alt)
  from Cons.prems(2) obtain shape where sh: "f s sh px = Inr shape"
    by (cases "f s sh px") (simp_all add: f)
  from Cons.prems(2) have "draw_pattern_settings ps sh px
      (d\<lparr>napari_shapes := napari_shapes d @ [shape],
         shape_types := shape_types d @ [NAPARI_PATTERN_LAYER_TYPES (type_of s)]\<rparr>) = Inr d'"
    by (simp add: f sh)
  from Cons.IH [OF _ this] Cons.prems(1) show ?case by simp
qed

lemma draw_skips_unsupported_aux:
  "draw_pattern_settings ps sh px \<lparr>napari_shapes = a, shape_types = b, warnings = ws\<rparr>
     = (case draw_pattern_settings (filter supported ps) sh px
               \<lparr>napari_shapes = a, shape_types = b, warnings = ws\<rparr> of
          Inl e \<Rightarrow> Inl e
        | Inr d' \<Rightarrow> Inr (d'\<lparr>warnings := ws @ unsupported_warnings ps\<rparr>))"
proof (induction ps arbitrary: a b ws)
  case Nil
  show ?case by (simp add: unsupported_warnings_def)
next
  case (Cons s ps)
  show ?case
  proof (cases "supported s")
    case False
    then have none: "NAPARI_DRAWING_FUNCTIONS (type_of s) = None" by (simp add: supported_alt)
    have all: "list_all supported (filter supported ps)" by (simp add: list_all_iff)
    show ?thesis
      using False Cons.IH [of a b "ws @ [WarningNotSupported (type_of s)]"]
        draw_supported_only [OF all, of sh px a b "ws @ [WarningNotSupported (type_of s)]" ws]
      by (simp add: none unsupported_warnings_def split: sum.splits)
  next
    case True
    then obtain f where f: "NAPARI_DRAWING_FUNCTIONS (type_of s) = Some f"
      by (auto simp: supported_alt)
    show ?thesis
    proof (cases "f s sh px")
      case (Inl e)
      then show ?thesis using True by (simp add: f)
    next
      case (Inr shape)
      then show ?thesis
        using True Cons.IH [of "a @ [shape]" "b @ [NAPARI_PATTERN_LAYER_TYPES (type_of s)]" ws]
        by (simp add: f unsupported_warnings_def cong: sum.case_cong)
    qed
  qed
qed

text \<open>
  The loop over the settings of one stage, started as the outer loop starts it: the result
  for the supported settings alone, and what the unsupported ones add.
\<close>

lemma draw_stage_settings:
  "draw_pattern_settings ps sh px \<lparr>napari_shapes = [], shape_types = [], warnings = []\<rparr>
     = (case draw_pattern_settings (filter supported ps) sh px
               \<lparr>napari_shapes = [], shape_types = [], warnings = []\<rparr> of
          Inl e \<Rightarrow> Inl e
        | Inr d' \<Rightarrow> Inr (d'\<lparr>warnings := unsupported_warnings ps\<rparr>))"
  using draw_skips_unsupported_aux [of ps sh px "[]" "[]" "[]"] by (simp cong: sum.case_cong)

lemma draw_filtered_no_warnings:
  assumes "draw_pattern_settings (filter supported ps) sh px
             \<lparr>napari_shapes = [], shape_types = [], warnings = []\<rparr> = Inr d'"
  shows "warnings d' = []"
proof -
  have "list_all supported (filter supported ps)" by (simp add: list_all_iff)
  from draw_supported_keeps_warnings [OF this assms] show ?thesis by simp
qed

lemma draw_stages_warnings_irrelevant:
  "draw_stages i (map without_unsupported sts) n sh px dc
       \<lparr>all_napari_shapes = A, all_shape_types = B, all_shape_colours = C, all_warnings = W\<rparr>
     = (case draw_stages i (map without_unsupported sts) n sh px dc
               \<lparr>all_napari_shapes = A, all_shape_types = B, all_shape_colours = C,
                all_warnings = W0\<rparr> of
          Inl e \<Rightarrow> Inl e
        | Inr a' \<Rightarrow> Inr (a'\<lparr>all_warnings := W\<rparr>))"
proof (induction sts arbitrary: i A B C)
  case Nil
  show ?case by simp
next
  case (Cons st sts)
  let ?ps = "filter supported (defined (pattern st))"
  have def: "defined (pattern (without_unsupported st)) = ?ps"
    and pt: "point (pattern (without_unsupported st)) = point (pattern st)"
    by (simp_all add: without_unsupported_def)
  show ?case
  proof (cases "draw_pattern_settings ?ps sh px \<lparr>napari_shapes = [], shape_types = [], warnings = []\<rparr>")
    case (Inl e)
    then show ?thesis by (simp add: def)
  next
    case (Inr d)
    have wd: "warnings d = []" using draw_filtered_no_warnings [OF Inr] .
    show ?thesis
    proof (cases "napari_shapes d = []")
      case True
      then show ?thesis using Cons.IH [of "Suc i" A B C] by (simp add: def Inr wd)
    next
      case False
      show ?thesis
      proof (cases "if dc then create_crosshair_shape (point (pattern st)) sh px else Inr []")
        case (Inl e)
        then show ?thesis
          using False by (simp add: def pt Inr wd Let_def split del: if_split cong: if_cong)
      next
        case cr: (Inr crosshair_shapes)
        show ?thesis
          using False cr Cons.IH
          by (simp add: def pt Inr wd Let_def split del: if_split cong: if_cong)
      qed
    qed
  qed
qed


lemma draw_stages_skips:
  "draw_stages i sts n sh px dc
       \<lparr>all_napari_shapes = A, all_shape_types = B, all_shape_colours = C, all_warnings = W\<rparr>
     = (case draw_stages i (map without_unsupported sts) n sh px dc
               \<lparr>all_napari_shapes = A, all_shape_types = B, all_shape_colours = C,
                all_warnings = W\<rparr> of
          Inl e \<Rightarrow> Inl e
        | Inr a' \<Rightarrow> Inr (a'\<lparr>all_warnings := W @ stages_warnings sts\<rparr>))"
proof (induction sts arbitrary: i A B C W)
  case Nil
  show ?case by (simp add: stages_warnings_def)
next
  case (Cons st sts)
  let ?ps = "defined (pattern st)"
  let ?d0 = "\<lparr>napari_shapes = [], shape_types = [], warnings = []\<rparr>"
  let ?uw = "unsupported_warnings ?ps"
  have def: "defined (pattern (without_unsupported st)) = filter supported ?ps"
    and pt: "point (pattern (without_unsupported st)) = point (pattern st)"
    by (simp_all add: without_unsupported_def)
  have sw: "stages_warnings (st # sts) = ?uw @ stages_warnings sts"
    by (simp add: stages_warnings_def)
  note inner = draw_stage_settings [of ?ps sh px]
  show ?case
  proof (cases "draw_pattern_settings (filter supported ?ps) sh px ?d0")
    case (Inl e)
    then show ?thesis using inner by (simp add: def)
  next
    case (Inr d')
    have wd: "warnings d' = []" using draw_filtered_no_warnings [OF Inr] .
    have orig: "draw_pattern_settings ?ps sh px ?d0 = Inr (d'\<lparr>warnings := ?uw\<rparr>)"
      using inner Inr by simp
    show ?thesis
    proof (cases "napari_shapes d' = []")
      case True
      show ?thesis
        using True Cons.IH [of "Suc i" A B C "W @ ?uw"]
          draw_stages_warnings_irrelevant [of "Suc i" sts n sh px dc A B C "W @ ?uw" W]
        by (simp add: def orig Inr wd sw split: sum.splits)
    next
      case False
      show ?thesis
      proof (cases "if dc then create_crosshair_shape (point (pattern st)) sh px else Inr []")
        case (Inl e)
        then show ?thesis
          using False by (simp add: def pt orig Inr wd Let_def split del: if_split cong: if_cong)
      next
        case cr: (Inr cs)
        let ?A = "A @ napari_shapes d' @ map Vertices cs"
        let ?B = "B @ shape_types d' @ map (\<lambda>c. Some ''rectangle'') cs"
        let ?C = "C @ (if n \<le> i then replicate (length (napari_shapes d' @ map Vertices cs)) ''black''
                       else replicate (length (napari_shapes d' @ map Vertices cs))
                              (COLOURS ! (i mod length COLOURS)))"
        have l: "draw_stages i (st # sts) n sh px dc
                   \<lparr>all_napari_shapes = A, all_shape_types = B, all_shape_colours = C,
                    all_warnings = W\<rparr>
                 = draw_stages (Suc i) sts n sh px dc
                     \<lparr>all_napari_shapes = ?A, all_shape_types = ?B, all_shape_colours = ?C,
                      all_warnings = W @ ?uw\<rparr>"
          using False cr by (simp add: orig Let_def split del: if_split cong: if_cong)
        have r: "draw_stages i (map without_unsupported (st # sts)) n sh px dc
                   \<lparr>all_napari_shapes = A, all_shape_types = B, all_shape_colours = C,
                    all_warnings = W\<rparr>
                 = draw_stages (Suc i) (map without_unsupported sts) n sh px dc
                     \<lparr>all_napari_shapes = ?A, all_shape_types = ?B, all_shape_colours = ?C,
                      all_warnings = W\<rparr>"
          using False cr by (simp add: def pt Inr wd Let_def split del: if_split cong: if_cong)
        show ?thesis
          unfolding l r
          using Cons.IH [of "Suc i" ?A ?B ?C "W @ ?uw"]
            draw_stages_warnings_irrelevant [of "Suc i" sts n sh px dc ?A ?B ?C "W @ ?uw" W]
          by (simp add: sw split: sum.splits)
      qed
    qed
  qed
qed

lemma draw_milling_patterns_skips:
  "draw_milling_patterns_in_napari layers sh tr sts px dc bg
     = (case draw_milling_patterns_in_napari layers sh tr (map without_unsupported sts) px dc
               (map without_unsupported bg) of
          Inl e \<Rightarrow> Inl e
        | Inr (names, layers', ws) \<Rightarrow> Inr (names, layers', stages_warnings (sts @ bg)))"
proof -
  let ?a0 = "\<lparr>all_napari_shapes = [], all_shape_types = [], all_shape_colours = [],
              all_warnings = []\<rparr>"
  note skips = draw_stages_skips [of 0 "sts @ bg" "length sts" sh px dc "[]" "[]" "[]" "[]"]
  show ?thesis
  proof (cases "draw_stages 0 (map without_unsupported (sts @ bg)) (length sts) sh px dc ?a0")
    case (Inl e)
    then show ?thesis using skips by (simp add: draw_milling_patterns_in_napari_def)
  next
    case (Inr a')
    then have orig: "draw_stages 0 (sts @ bg) (length sts) sh px dc ?a0
                       = Inr (a'\<lparr>all_warnings := stages_warnings (sts @ bg)\<rparr>)"
      using skips by simp
    show ?thesis
      using Inr by (simp add: draw_milling_patterns_in_napari_def orig Let_def)
  qed
qed

lemma crosshair_returns: "px \<noteq> 0 \<Longrightarrow> \<exists>cs. create_crosshair_shape p sh px = Inr cs"
  by (simp add: create_crosshair_shape_def Let_def)

lemma drawing_function_returns:
  assumes "px \<noteq> 0" and "NAPARI_DRAWING_FUNCTIONS (type_of s) = Some f"
  shows "\<exists>shape. f s sh px = Inr shape"
  using assms
  by (cases s) (auto simp: NAPARI_DRAWING_FUNCTIONS_def Let_def split: prod.splits)

lemma draw_pattern_settings_returns:
  assumes "px \<noteq> 0"
  shows "\<exists>d'. draw_pattern_settings ps sh px d = Inr d'"
proof (induction ps arbitrary: d)
  case Nil
  show ?case by simp
next
  case (Cons s ps)
  show ?case
  proof (cases "NAPARI_DRAWING_FUNCTIONS (type_of s)")
    case None
    then show ?thesis using Cons.IH by simp
  next
    case (Some f)
    from drawing_function_returns [OF assms Some] obtain shape where sh: "f s sh px = Inr shape"
      by blast
    show ?thesis using Some sh Cons.IH by simp
  qed
qed

lemma draw_stages_returns:
  assumes "px \<noteq> 0"
  shows "\<exists>a'. draw_stages i sts n sh px dc a = Inr a'"
proof (induction sts arbitrary: i a)
  case Nil
  show ?case by simp
next
  case (Cons st sts)
  obtain d where d: "draw_pattern_settings (defined (pattern st)) sh px
                       \<lparr>napari_shapes = [], shape_types = [], warnings = []\<rparr> = Inr d"
    using draw_pattern_settings_returns [OF assms] by blast
  obtain cs where cs: "(if dc then create_crosshair_shape (point (pattern st)) sh px else Inr [])
                         = Inr cs"
    using crosshair_returns [OF assms, of "point (pattern st)" sh] by (cases dc) auto
  show ?case
  proof (cases "napari_shapes d = []")
    case True
    then show ?thesis using Cons.IH by (simp add: d)
  next
    case False
    then show ?thesis
      using Cons.IH cs by (simp add: d Let_def split del: if_split cong: if_cong)
  qed
qed

lemma draw_milling_patterns_returns:
  assumes "px \<noteq> 0"
  shows "\<exists>layers'. draw_milling_patterns_in_napari layers sh tr sts px dc bg
           = Inr ([''Milling Patterns''], layers', stages_warnings (sts @ bg))"
proof -
  obtain a where a: "draw_stages 0 (map without_unsupported sts @ map without_unsupported bg)
      (length sts) sh px dc
      \<lparr>all_napari_shapes = [], all_shape_types = [], all_shape_colours = [], all_warnings = []\<rparr>
      = Inr a"
    using draw_stages_returns [OF assms] by blast
  show ?thesis
    by (subst draw_milling_patterns_skips)
       (simp add: draw_milling_patterns_in_napari_def a Let_def)
qed

subsection \<open>Placement\<close>

lemma placement_reaches:
  assumes "\<not> supported u"
  shows "placement_loop vb (pre @ u # post) img
           = (if fst (placement_loop vb pre img) = Inr True
              then (Inr False, [WarningNotSupported (type_of u)])
              else placement_loop vb pre img)"
proof (induction pre)
  case Nil
  from assms have "NAPARI_DRAWING_FUNCTIONS (type_of u) = None" by (simp add: supported_alt)
  then show ?case by simp
next
  case (Cons s pre)
  show ?case
    using Cons.IH
    by (simp split: option.splits sum.splits napari_shape.splits)
qed

lemma placement_true_supported:
  "fst (placement_loop vb ps img) = Inr True \<Longrightarrow> list_all supported ps"
proof (induction ps)
  case Nil
  show ?case by simp
next
  case (Cons s ps)
  then show ?case
    by (auto simp: supported_alt split: option.splits sum.splits napari_shape.splits if_splits)
qed


lemma placement_loop_returns:
  assumes "pixel_size_x img \<noteq> 0" and "\<And>shape. \<exists>b. validate_bitmap shape = Inr b"
  shows "\<exists>b. fst (placement_loop validate_bitmap ps img) = Inr b"
proof (induction ps)
  case Nil
  show ?case by auto
next
  case (Cons s ps)
  show ?case
  proof (cases "NAPARI_DRAWING_FUNCTIONS (type_of s)")
    case None
    then show ?thesis by auto
  next
    case (Some f)
    from drawing_function_returns [OF assms(1) Some]
    obtain shape where sh: "f s (data_shape img) (pixel_size_x img) = Inr shape" by blast
    show ?thesis
    proof (cases shape)
      case (Vertices vs)
      then show ?thesis using Cons.IH by (auto simp: Some sh)
    next
      case (BitmapImage p rx ry a t)
      from assms(2) obtain b where "validate_bitmap shape = Inr b" by blast
      then show ?thesis using Cons.IH BitmapImage by (auto simp: Some sh)
    qed
  qed
qed

text \<open>
  Claim C5. When the class of a settings object has no drawing function in the table,
  draw_milling_patterns_in_napari logs a warning and goes on with the next object: what it
  returns and draws is what it returns and draws for the stages without such objects, with
  one warning for each of them, in order, and with a pixel size other than zero it
  returns (nothing is raised). is_pattern_placement_valid, when its loop comes to such an
  object (every object before it is supported and placed within the image), logs the
  warning and returns False; it stops earlier only to return False or to raise, so for a
  pattern with such an object it never returns True.
\<close>

theorem unsupported_pattern_settings:
  "draw_milling_patterns_in_napari layers sh tr sts px dc bg
     = (case draw_milling_patterns_in_napari layers sh tr (map without_unsupported sts) px dc
               (map without_unsupported bg) of
          Inl e \<Rightarrow> Inl e
        | Inr (names, layers', ws) \<Rightarrow> Inr (names, layers', stages_warnings (sts @ bg)))
   \<and> (px \<noteq> 0 \<longrightarrow>
        (\<exists>layers'. draw_milling_patterns_in_napari layers sh tr sts px dc bg
                      = Inr ([''Milling Patterns''], layers', stages_warnings (sts @ bg))))
   \<and> (\<not> is_fiducial p \<longrightarrow> defined p = pre @ u # post \<longrightarrow> \<not> supported u \<longrightarrow>
        is_pattern_placement_valid fv vb p img
          = (if fst (placement_loop vb pre img) = Inr True
             then (Inr False, [WarningNotSupported (type_of u)])
             else placement_loop vb pre img)
        \<and> fst (is_pattern_placement_valid fv vb p img) \<noteq> Inr True
        \<and> (pixel_size_x img \<noteq> 0 \<longrightarrow> (\<forall>shape. \<exists>b. vb shape = Inr b) \<longrightarrow>
             fst (is_pattern_placement_valid fv vb p img) = Inr False))"
proof -
  have draw: "draw_milling_patterns_in_napari layers sh tr sts px dc bg
     = (case draw_milling_patterns_in_napari layers sh tr (map without_unsupported sts) px dc
               (map without_unsupported bg) of
          Inl e \<Rightarrow> Inl e
        | Inr (names, layers', ws) \<Rightarrow> Inr (names, layers', stages_warnings (sts @ bg)))"
    by (rule draw_milling_patterns_skips)
  have returns: "px \<noteq> 0 \<longrightarrow>
        (\<exists>layers'. draw_milling_patterns_in_napari layers sh tr sts px dc bg
                      = Inr ([''Milling Patterns''], layers', stages_warnings (sts @ bg)))"
    using draw_milling_patterns_returns by blast
  have placement: "is_pattern_placement_valid fv vb p img
          = (if fst (placement_loop vb pre img) = Inr True
             then (Inr False, [WarningNotSupported (type_of u)])
             else placement_loop vb pre img)
        \<and> fst (is_pattern_placement_valid fv vb p img) \<noteq> Inr True
        \<and> (pixel_size_x img \<noteq> 0 \<longrightarrow> (\<forall>shape. \<exists>b. vb shape = Inr b) \<longrightarrow>
             fst (is_pattern_placement_valid fv vb p img) = Inr False)"
    if nf: "\<not> is_fiducial p" and d: "defined p = pre @ u # post" and u: "\<not> supported u"
  proof -
    have eq: "is_pattern_placement_valid fv vb p img = placement_loop vb (pre @ u # post) img"
      using nf d by (simp add: is_pattern_placement_valid_def)
    have reach: "placement_loop vb (pre @ u # post) img
          = (if fst (placement_loop vb pre img) = Inr True
             then (Inr False, [WarningNotSupported (type_of u)])
             else placement_loop vb pre img)"
      by (rule placement_reaches [OF u])
    have not_true: "fst (placement_loop vb (pre @ u # post) img) \<noteq> Inr True"
      using placement_true_supported [of vb "pre @ u # post" img] u by auto
    have false: "fst (placement_loop vb (pre @ u # post) img) = Inr False"
      if "pixel_size_x img \<noteq> 0" and "\<forall>shape. \<exists>b. vb shape = Inr b"
    proof -
      from placement_loop_returns [of img vb "pre @ u # post"] that
      obtain b where "fst (placement_loop vb (pre @ u # post) img) = Inr b" by blast
      with not_true show ?thesis by (cases b) simp_all
    qed
    show ?thesis using eq reach not_true false by simp
  qed
  show ?thesis using draw returns placement by blast
qed

theorem unsupported_pattern_settings_witness:
  "draw_milling_patterns_in_napari [] (10, 10) [0, 0]
     [\<lparr>pattern = \<lparr>is_fiducial = False,
                  defined = [OtherSettings ''Polygon'', FibsemLineSettings 0 0 1 1],
                  point = \<lparr>point_x = 0, point_y = 0\<rparr>, height = 0\<rparr>\<rparr>] 1 False []
     = Inr ([''Milling Patterns''],
            [\<lparr>layer_name = ''Milling Patterns'', is_shapes_layer = True,
              layer_data = [Vertices [(5, 5), (4, 6)]], layer_shape_type = [Some ''line''],
              layer_edge_color = [''yellow''], layer_face_color = [''yellow''],
              layer_translate = [0, 0]\<rparr>],
            [WarningNotSupported (OtherType ''Polygon'')])
   \<and> is_pattern_placement_valid (\<lambda>i p h. False) (\<lambda>s. Inr True)
        \<lparr>is_fiducial = False,
         defined = [FibsemLineSettings 0 0 1 1, OtherSettings ''Polygon'', FibsemLineSettings 0 0 1 1],
         point = \<lparr>point_x = 0, point_y = 0\<rparr>, height = 0\<rparr>
        \<lparr>data_shape = (10, 10), pixel_size_x = 1\<rparr>
     = (Inr False, [WarningNotSupported (OtherType ''Polygon'')])"
  using unsupported_pattern_settings
    [of "[]" "(10, 10)" "[0, 0]"
        "[\<lparr>pattern = \<lparr>is_fiducial = False,
                  defined = [OtherSettings ''Polygon'', FibsemLineSettings 0 0 1 1],
                  point = \<lparr>point_x = 0, point_y = 0\<rparr>, height = 0\<rparr>\<rparr>]" 1 False "[]"
        "\<lparr>is_fiducial = False,
         defined = [FibsemLineSettings 0 0 1 1, OtherSettings ''Polygon'', FibsemLineSettings 0 0 1 1],
         point = \<lparr>point_x = 0, point_y = 0\<rparr>, height = 0\<rparr>"
        "[FibsemLineSettings 0 0 1 1]" "OtherSettings ''Polygon''" "[FibsemLineSettings 0 0 1 1]"
        "\<lambda>i p h. False" "\<lambda>s. Inr True" "\<lparr>data_shape = (10, 10), pixel_size_x = 1\<rparr>"]
  by (simp add: draw_milling_patterns_in_napari_def without_unsupported_def supported_alt
        stages_warnings_def unsupported_warnings_def NAPARI_DRAWING_FUNCTIONS_def
        NAPARI_PATTERN_LAYER_TYPES_def get_image_pixel_centre_def py_int_def COLOURS_def
        remove_all_napari_shapes_layers_def IGNORE_SHAPES_LAYERS_def Let_def)

end
